theory Spec2Isabelle
  imports Complex_Main
begin

section \<open>JavaScript values\<close>

text \<open>
  The validation engine (\<^verbatim>\<open>validation-framework/src/validation-engine.js\<close>) works on
  flat records of scalar values and on rule definitions read from JSON. This section
  fixes the value model the embedding uses.

  A number is an IEEE double: not-a-number, one of the two infinities, or a finite
  value. Finite values are carried as rationals (every finite double is one); the two
  zeros are identified, which no operation of the engine can tell apart.
\<close>

datatype jsnum = NaN | PInf | NInf | Fin rat

text \<open>
  A value is one of the scalars a record or a rule configuration can hold.
  \<open>VObj k\<close> is the member named \<open>k\<close> that a plain object inherits from
  \<^verbatim>\<open>Object.prototype\<close>; it is what \<^verbatim>\<open>dataset[k]\<close> yields when the record has no
  own field \<open>k\<close> but \<open>k\<close> is, say, \<^verbatim>\<open>constructor\<close>.
\<close>

datatype js_value =
    VUndefined
  | VNull
  | VBool bool
  | VNum jsnum
  | VStr string
  | VObj string

datatype js_error = SyntaxError | TypeError

subsection \<open>The host\<close>

text \<open>
  The built-in operations of the language that the standard leaves to the
  implementation, or that are too large to restate here, are parameters of the model.
  Every function below that depends on them takes the host \<open>H\<close> as its first argument,
  and the general theorems hold for every host.

  \<^item> \<open>RegExp_host src i\<close>: \<^verbatim>\<open>new RegExp(src)\<close>, with flag \<^verbatim>\<open>i\<close> when \<open>i\<close> holds;
    \<open>None\<close> is the thrown \<^verbatim>\<open>SyntaxError\<close>, \<open>Some t\<close> a regular expression whose
    \<^verbatim>\<open>test\<close> method is \<open>t\<close>.
  \<^item> \<open>Date_parse_host s\<close>: \<^verbatim>\<open>Date.parse(s)\<close> for a string that is not a plain ISO
    calendar date; \<open>None\<close> is \<^verbatim>\<open>NaN\<close>, \<open>Some t\<close> a time value in milliseconds.
  \<^item> \<open>URL_host s\<close>: whether \<^verbatim>\<open>new URL(s)\<close> returns rather than throws.
  \<^item> \<open>Number_host s\<close>: the value of a numeric literal that is not a small integer.
  \<^item> \<open>add_host a b\<close>: the rounded sum of two finite numbers, when the sum is not a
    small integer.
  \<^item> \<open>Number_toString_host q\<close>: the decimal text of a finite number that is not an
    integer of magnitude up to \<open>2^53\<close> (the shortest digits that read back as the same
    double).
  \<^item> \<open>Object_toString_host k\<close>: the text of the inherited member \<open>k\<close>.
\<close>

record host =
  RegExp_host :: "string \<Rightarrow> bool \<Rightarrow> (string \<Rightarrow> bool) option"
  Date_parse_host :: "string \<Rightarrow> int option"
  URL_host :: "string \<Rightarrow> bool"
  Number_host :: "string \<Rightarrow> jsnum"
  add_host :: "rat \<Rightarrow> rat \<Rightarrow> jsnum"
  Number_toString_host :: "rat \<Rightarrow> string"
  Object_toString_host :: "string \<Rightarrow> string"

subsection \<open>Numbers\<close>

definition isNaN :: "jsnum \<Rightarrow> bool" where
  "isNaN n = (n = NaN)"

text \<open>The relational operators on numbers: every comparison with \<open>NaN\<close> is false.\<close>

fun num_lt :: "jsnum \<Rightarrow> jsnum \<Rightarrow> bool" where
  "num_lt NaN b = False"
| "num_lt a NaN = False"
| "num_lt PInf b = False"
| "num_lt a NInf = False"
| "num_lt NInf b = True"
| "num_lt a PInf = True"
| "num_lt (Fin a) (Fin b) = (a < b)"

definition num_eq :: "jsnum \<Rightarrow> jsnum \<Rightarrow> bool" where
  "num_eq a b = (a \<noteq> NaN \<and> a = b)"

definition num_gt :: "jsnum \<Rightarrow> jsnum \<Rightarrow> bool" where
  "num_gt a b = num_lt b a"

definition num_le :: "jsnum \<Rightarrow> jsnum \<Rightarrow> bool" where
  "num_le a b = (num_lt a b \<or> num_eq a b)"

definition num_ge :: "jsnum \<Rightarrow> jsnum \<Rightarrow> bool" where
  "num_ge a b = num_le b a"

definition is_int :: "rat \<Rightarrow> bool" where
  "is_int q = (of_int \<lfloor>q\<rfloor> = q)"

text \<open>Integers up to \<open>2^53\<close> in magnitude are doubles, and so are their small sums.\<close>

definition safe_int :: "rat \<Rightarrow> bool" where
  "safe_int q = (is_int q \<and> \<bar>q\<bar> \<le> 9007199254740992)"

fun num_add :: "host \<Rightarrow> jsnum \<Rightarrow> jsnum \<Rightarrow> jsnum" where
  "num_add H NaN b = NaN"
| "num_add H a NaN = NaN"
| "num_add H PInf NInf = NaN"
| "num_add H NInf PInf = NaN"
| "num_add H PInf b = PInf"
| "num_add H NInf b = NInf"
| "num_add H a PInf = PInf"
| "num_add H a NInf = NInf"
| "num_add H (Fin a) (Fin b) =
     (if safe_int a \<and> safe_int b \<and> safe_int (a + b) then Fin (a + b) else add_host H a b)"

subsection \<open>Strings\<close>

text \<open>
  Strings are lists of 8-bit characters, so the model covers the strings whose code
  units lie below 256. White space is the part of the language's \<^verbatim>\<open>WhiteSpace\<close> and
  \<^verbatim>\<open>LineTerminator\<close> sets in that range.
\<close>

definition js_space :: "char \<Rightarrow> bool" where
  "js_space c = (c \<in> set [CHR 0x09, CHR 0x0A, CHR 0x0B, CHR 0x0C, CHR 0x0D, CHR 0x20, CHR 0xA0])"

definition trim :: "string \<Rightarrow> string" where
  "trim s = rev (dropWhile js_space (rev (dropWhile js_space s)))"

definition startsWith :: "string \<Rightarrow> string \<Rightarrow> bool" where
  "startsWith s p = (take (length p) s = p)"

definition endsWith :: "string \<Rightarrow> string \<Rightarrow> bool" where
  "endsWith s p = (length p \<le> length s \<and> drop (length s - length p) s = p)"

fun str_includes :: "string \<Rightarrow> string \<Rightarrow> bool" where
  "str_includes [] p = (p = [])"
| "str_includes (c # cs) p = (startsWith (c # cs) p \<or> str_includes cs p)"

definition quoted :: "string \<Rightarrow> string" where
  "quoted s = CHR 0x27 # s @ [CHR 0x27]"

definition is_digit :: "char \<Rightarrow> bool" where
  "is_digit c = (c \<in> set ''0123456789'')"

definition digit_val :: "char \<Rightarrow> int" where
  "digit_val c = of_char c - 48"

definition int_of_digits :: "string \<Rightarrow> int" where
  "int_of_digits s = foldl (\<lambda>n c. 10 * n + digit_val c) 0 s"

fun string_of_nat :: "nat \<Rightarrow> string" where
  "string_of_nat n =
     (if n < 10 then [''0123456789'' ! n]
      else string_of_nat (n div 10) @ [''0123456789'' ! (n mod 10)])"

declare string_of_nat.simps [simp del]

subsection \<open>String to number\<close>

text \<open>
  \<^verbatim>\<open>Number(s)\<close> on a string follows the \<^verbatim>\<open>StringNumericLiteral\<close> grammar: the
  string is trimmed; the empty string is 0; an optional sign and \<^verbatim>\<open>Infinity\<close> is an
  infinity; a decimal literal (digits, optional fraction, optional exponent) or a
  \<^verbatim>\<open>0x\<close>, \<^verbatim>\<open>0o\<close>, \<^verbatim>\<open>0b\<close> literal is a number; anything else is \<open>NaN\<close>.
  The value of a signed run of digits up to \<open>2^53\<close> is computed here; the rounding of
  any other literal is the host's.
\<close>

definition is_digits :: "string \<Rightarrow> bool" where
  "is_digits s = (s \<noteq> [] \<and> list_all is_digit s)"

fun strip_sign :: "string \<Rightarrow> string" where
  "strip_sign [] = []"
| "strip_sign (c # cs) = (if c = CHR ''+'' \<or> c = CHR ''-'' then cs else c # cs)"

definition is_exponent :: "string \<Rightarrow> bool" where
  "is_exponent e =
     (case e of [] \<Rightarrow> True
      | c # cs \<Rightarrow> (c = CHR ''e'' \<or> c = CHR ''E'') \<and> is_digits (strip_sign cs))"

definition is_unsigned_decimal :: "string \<Rightarrow> bool" where
  "is_unsigned_decimal u =
     (let ip = takeWhile is_digit u; r = dropWhile is_digit u in
      case r of [] \<Rightarrow> ip \<noteq> []
      | c # r' \<Rightarrow>
          if c = CHR ''.''
          then (let fp = takeWhile is_digit r'; e = dropWhile is_digit r'
                in (ip \<noteq> [] \<or> fp \<noteq> []) \<and> is_exponent e)
          else ip \<noteq> [] \<and> is_exponent r)"

definition is_radix_literal :: "string \<Rightarrow> bool" where
  "is_radix_literal t =
     (case t of
        z # x # ds \<Rightarrow>
          z = CHR ''0'' \<and> ds \<noteq> [] \<and>
          (if x = CHR ''x'' \<or> x = CHR ''X'' then list_all (\<lambda>c. c \<in> set ''0123456789abcdefABCDEF'') ds
           else if x = CHR ''o'' \<or> x = CHR ''O'' then list_all (\<lambda>c. c \<in> set ''01234567'') ds
           else if x = CHR ''b'' \<or> x = CHR ''B'' then list_all (\<lambda>c. c \<in> set ''01'') ds
           else False)
      | _ \<Rightarrow> False)"

definition StringToNumber :: "host \<Rightarrow> string \<Rightarrow> jsnum" where
  "StringToNumber H s =
     (let t = trim s; u = strip_sign t; neg = startsWith t ''-'' in
      if t = [] then Fin 0
      else if u = ''Infinity'' then (if neg then NInf else PInf)
      else if is_digits u \<and> int_of_digits u \<le> 9007199254740992
        then Fin (if neg then - of_int (int_of_digits u) else of_int (int_of_digits u))
      else if is_unsigned_decimal u \<or> is_radix_literal t then Number_host H t
      else NaN)"

subsection \<open>Coercions\<close>

definition ToNumber :: "host \<Rightarrow> js_value \<Rightarrow> jsnum" where
  "ToNumber H v =
     (case v of
        VUndefined \<Rightarrow> NaN
      | VNull \<Rightarrow> Fin 0
      | VBool b \<Rightarrow> Fin (if b then 1 else 0)
      | VNum n \<Rightarrow> n
      | VStr s \<Rightarrow> StringToNumber H s
      | VObj k \<Rightarrow> StringToNumber H (Object_toString_host H k))"

definition Number_toString :: "host \<Rightarrow> jsnum \<Rightarrow> string" where
  "Number_toString H n =
     (case n of
        NaN \<Rightarrow> ''NaN''
      | PInf \<Rightarrow> ''Infinity''
      | NInf \<Rightarrow> ''-Infinity''
      | Fin q \<Rightarrow>
          if safe_int q
          then (if q < 0 then ''-'' else []) @ string_of_nat (nat \<bar>\<lfloor>q\<rfloor>\<bar>)
          else Number_toString_host H q)"

definition ToString :: "host \<Rightarrow> js_value \<Rightarrow> string" where
  "ToString H v =
     (case v of
        VUndefined \<Rightarrow> ''undefined''
      | VNull \<Rightarrow> ''null''
      | VBool b \<Rightarrow> (if b then ''true'' else ''false'')
      | VNum n \<Rightarrow> Number_toString H n
      | VStr s \<Rightarrow> s
      | VObj k \<Rightarrow> Object_toString_host H k)"

definition ToBoolean :: "js_value \<Rightarrow> bool" where
  "ToBoolean v =
     (case v of
        VUndefined \<Rightarrow> False
      | VNull \<Rightarrow> False
      | VBool b \<Rightarrow> b
      | VNum n \<Rightarrow> n \<noteq> NaN \<and> n \<noteq> Fin 0
      | VStr s \<Rightarrow> s \<noteq> []
      | VObj k \<Rightarrow> True)"

text \<open>Strict equality \<^verbatim>\<open>===\<close>: same type and same value, and \<open>NaN\<close> equals nothing.\<close>

definition strict_eq :: "js_value \<Rightarrow> js_value \<Rightarrow> bool" where
  "strict_eq a b = (a = b \<and> a \<noteq> VNum NaN)"

text \<open>
  Loose equality \<^verbatim>\<open>==\<close>: a boolean operand becomes a number, an object compared with
  a string or a number becomes its text, a string compared with a number becomes a
  number, and \<^verbatim>\<open>null\<close> and \<^verbatim>\<open>undefined\<close> equal each other and nothing else.
\<close>

fun bool_to_num :: "js_value \<Rightarrow> js_value" where
  "bool_to_num (VBool b) = VNum (Fin (if b then 1 else 0))"
| "bool_to_num v = v"

fun is_str_or_num :: "js_value \<Rightarrow> bool" where
  "is_str_or_num (VStr s) = True"
| "is_str_or_num (VNum n) = True"
| "is_str_or_num v = False"

fun obj_to_prim :: "host \<Rightarrow> js_value \<Rightarrow> js_value \<Rightarrow> js_value" where
  "obj_to_prim H (VObj k) other = (if is_str_or_num other then VStr (Object_toString_host H k) else VObj k)"
| "obj_to_prim H v other = v"

fun prim_loose_eq :: "host \<Rightarrow> js_value \<Rightarrow> js_value \<Rightarrow> bool" where
  "prim_loose_eq H VUndefined v = (v = VUndefined \<or> v = VNull)"
| "prim_loose_eq H VNull v = (v = VUndefined \<or> v = VNull)"
| "prim_loose_eq H (VNum a) (VNum b) = num_eq a b"
| "prim_loose_eq H (VStr a) (VStr b) = (a = b)"
| "prim_loose_eq H (VNum a) (VStr b) = num_eq a (StringToNumber H b)"
| "prim_loose_eq H (VStr a) (VNum b) = num_eq (StringToNumber H a) b"
| "prim_loose_eq H (VObj a) (VObj b) = (a = b)"
| "prim_loose_eq H a b = False"

definition loose_eq :: "host \<Rightarrow> js_value \<Rightarrow> js_value \<Rightarrow> bool" where
  "loose_eq H x y =
     (let x1 = bool_to_num x; y1 = bool_to_num y
      in prim_loose_eq H (obj_to_prim H x1 y1) (obj_to_prim H y1 x1))"

section \<open>Records, rules and results\<close>

text \<open>
  A record (the \<^verbatim>\<open>dataset\<close> argument) is a plain object: its own fields, in the order
  in which \<^verbatim>\<open>Object.keys\<close> and \<^verbatim>\<open>for ... in\<close> enumerate them. Reading a field that
  the record does not own falls through to \<^verbatim>\<open>Object.prototype\<close>.
\<close>

type_synonym dataset = "(string \<times> js_value) list"

definition object_prototype_keys :: "string list" where
  "object_prototype_keys =
     [''constructor'', ''__defineGetter__'', ''__defineSetter__'', ''hasOwnProperty'',
      ''__lookupGetter__'', ''__lookupSetter__'', ''isPrototypeOf'', ''propertyIsEnumerable'',
      ''toString'', ''valueOf'', ''__proto__'', ''toLocaleString'']"

definition getProp :: "dataset \<Rightarrow> string \<Rightarrow> js_value" where
  "getProp dataset k =
     (case map_of dataset k of
        Some v \<Rightarrow> v
      | None \<Rightarrow> if k \<in> set object_prototype_keys then VObj k else VUndefined)"

text \<open>\<^verbatim>\<open>dataset[f]\<close> where \<open>f\<close> is a configuration value: the key is \<open>f\<close> as a string.\<close>

definition getField :: "host \<Rightarrow> dataset \<Rightarrow> js_value \<Rightarrow> js_value" where
  "getField H dataset f = getProp dataset (ToString H f)"

definition keys :: "dataset \<Rightarrow> string list" where
  "keys dataset = map fst dataset"

text \<open>
  A rule configuration is an object of scalar-valued keys, read by name (an absent key
  reads \<open>VUndefined\<close>), and the one nested object \<^verbatim>\<open>targetCondition\<close>.
\<close>

type_synonym js_object = "string \<Rightarrow> js_value"

record configuration =
  key :: js_object
  targetCondition :: "js_object option"

record rule =
  rule_id :: js_value
  rule_name :: js_value
  ruleType :: js_value
  target_field :: string
  config :: configuration
  severity :: js_value
  enabled :: js_value

text \<open>What a validator returns: \<^verbatim>\<open>{ passed, message }\<close>, the message possibly absent.\<close>

record outcome =
  passed :: bool
  message :: "string option"

definition pass :: outcome where
  "pass = \<lparr>passed = True, message = None\<rparr>"

definition fail :: "string \<Rightarrow> outcome" where
  "fail m = \<lparr>passed = False, message = Some m\<rparr>"

record validation_result =
  r_ruleId :: js_value
  r_ruleName :: js_value
  r_field :: string
  r_value :: js_value
  r_severity :: js_value
  r_message :: "string option"
  r_passed :: bool

section \<open>Built-in operations the engine calls\<close>

subsection \<open>Relational operators on values\<close>

text \<open>
  \<^verbatim>\<open>a < b\<close>: both operands are made primitive; two strings are compared by code
  units, anything else as numbers. \<^verbatim>\<open>a <= b\<close> is "not \<^verbatim>\<open>b < a\<close>" unless an
  operand is \<open>NaN\<close>.
\<close>

fun str_lt :: "string \<Rightarrow> string \<Rightarrow> bool" where
  "str_lt [] [] = False"
| "str_lt [] (d # ds) = True"
| "str_lt (c # cs) [] = False"
| "str_lt (c # cs) (d # ds) =
     ((of_char c :: nat) < of_char d \<or> (c = d \<and> str_lt cs ds))"

fun ToPrimitive :: "host \<Rightarrow> js_value \<Rightarrow> js_value" where
  "ToPrimitive H (VObj k) = VStr (Object_toString_host H k)"
| "ToPrimitive H v = v"

fun prim_lt :: "host \<Rightarrow> js_value \<Rightarrow> js_value \<Rightarrow> bool" where
  "prim_lt H (VStr a) (VStr b) = str_lt a b"
| "prim_lt H a b = num_lt (ToNumber H a) (ToNumber H b)"

fun prim_le :: "host \<Rightarrow> js_value \<Rightarrow> js_value \<Rightarrow> bool" where
  "prim_le H (VStr a) (VStr b) = (\<not> str_lt b a)"
| "prim_le H a b = num_le (ToNumber H a) (ToNumber H b)"

definition js_lt :: "host \<Rightarrow> js_value \<Rightarrow> js_value \<Rightarrow> bool" where
  "js_lt H a b = prim_lt H (ToPrimitive H a) (ToPrimitive H b)"

definition js_le :: "host \<Rightarrow> js_value \<Rightarrow> js_value \<Rightarrow> bool" where
  "js_le H a b = prim_le H (ToPrimitive H a) (ToPrimitive H b)"

definition js_gt :: "host \<Rightarrow> js_value \<Rightarrow> js_value \<Rightarrow> bool" where
  "js_gt H a b = js_lt H b a"

definition js_ge :: "host \<Rightarrow> js_value \<Rightarrow> js_value \<Rightarrow> bool" where
  "js_ge H a b = js_le H b a"

subsection \<open>String methods\<close>

text \<open>
  \<^verbatim>\<open>s.substring(a, b)\<close> clamps both indices to the length and swaps them when
  \<open>a > b\<close>. \<^verbatim>\<open>s.split(sep)\<close> cuts at the occurrences of a non-empty separator, found
  left to right without overlap. \<^verbatim>\<open>s.replace(/\*/g, '.*')\<close> rewrites every star.
\<close>

definition substring :: "string \<Rightarrow> nat \<Rightarrow> nat \<Rightarrow> string" where
  "substring s a b =
     (let a' = min a (length s); b' = min b (length s)
      in take (max a' b' - min a' b') (drop (min a' b') s))"

fun split_go :: "string \<Rightarrow> nat \<Rightarrow> string \<Rightarrow> string \<Rightarrow> string list" where
  "split_go sep skip cur [] = [rev cur]"
| "split_go sep skip cur (c # cs) =
     (if 0 < skip then split_go sep (skip - 1) cur cs
      else if startsWith (c # cs) sep then rev cur # split_go sep (length sep - 1) [] cs
      else split_go sep 0 (c # cur) cs)"

definition split :: "string \<Rightarrow> string \<Rightarrow> string list" where
  "split s sep = split_go sep 0 [] s"

definition replace_stars :: "string \<Rightarrow> string" where
  "replace_stars p = concat (map (\<lambda>c. if c = CHR ''*'' then ''.*'' else [c]) p)"

subsection \<open>Regular expressions\<close>

text \<open>
  The two regular-expression literals of the source are written out as terms of a
  small expression type and matched by \<open>rx_rest\<close>, which returns every remainder that
  matching a prefix of the input can leave. Both literals are anchored at both ends,
  so \<^verbatim>\<open>test\<close> is a match of the whole string.
\<close>

datatype rx =
    Cls "char list"
  | Seq rx rx
  | Opt rx
  | Plus rx
  | Rep nat rx
  | AtLeast nat rx

fun iter_plus :: "(string \<Rightarrow> string list) \<Rightarrow> nat \<Rightarrow> string list \<Rightarrow> string list" where
  "iter_plus f 0 S = []"
| "iter_plus f (Suc n) S = (let S' = concat (map f S) in S' @ iter_plus f n S')"

primrec rx_rest :: "rx \<Rightarrow> string \<Rightarrow> string list" where
  "rx_rest (Cls cs) = (\<lambda>s. case s of [] \<Rightarrow> [] | c # t \<Rightarrow> if c \<in> set cs then [t] else [])"
| "rx_rest (Seq a b) = (\<lambda>s. concat (map (rx_rest b) (rx_rest a s)))"
| "rx_rest (Opt a) = (\<lambda>s. s # rx_rest a s)"
| "rx_rest (Plus a) = (\<lambda>s. iter_plus (rx_rest a) (Suc (length s)) [s])"
| "rx_rest (Rep n a) = (\<lambda>s. ((\<lambda>S. concat (map (rx_rest a) S)) ^^ n) [s])"
| "rx_rest (AtLeast n a) =
     (\<lambda>s. let S = ((\<lambda>S. concat (map (rx_rest a) S)) ^^ n) [s]
          in S @ concat (map (\<lambda>t. iter_plus (rx_rest a) (Suc (length t)) [t]) S))"

definition rx_test :: "rx \<Rightarrow> string \<Rightarrow> bool" where
  "rx_test r s = ([] \<in> set (rx_rest r s))"

definition alpha_chars :: "char list" where
  "alpha_chars = ''abcdefghijklmnopqrstuvwxyzABCDEFGHIJKLMNOPQRSTUVWXYZ''"

definition space_chars :: "char list" where
  "space_chars = [CHR 0x09, CHR 0x0A, CHR 0x0B, CHR 0x0C, CHR 0x0D, CHR 0x20, CHR 0xA0]"

text \<open>\<^verbatim>\<open>/^[a-zA-Z0-9._%+-]+@[a-zA-Z0-9.-]+\.[a-zA-Z]{2,}$/\<close>\<close>

definition emailRegex :: rx where
  "emailRegex =
     Seq (Plus (Cls (alpha_chars @ ''0123456789'' @ ''._%+-'')))
    (Seq (Cls ''@'')
    (Seq (Plus (Cls (alpha_chars @ ''0123456789'' @ ''.-'')))
    (Seq (Cls ''.'')
         (AtLeast 2 (Cls alpha_chars)))))"

text \<open>\<^verbatim>\<open>/^\(?(\d{3})\)?[-.\s]?(\d{3})[-.\s]?(\d{4})$/\<close>\<close>

definition phoneRegex :: rx where
  "phoneRegex =
     Seq (Opt (Cls ''(''))
    (Seq (Rep 3 (Cls ''0123456789''))
    (Seq (Opt (Cls '')''))
    (Seq (Opt (Cls (''-.'' @ space_chars)))
    (Seq (Rep 3 (Cls ''0123456789''))
    (Seq (Opt (Cls (''-.'' @ space_chars)))
         (Rep 4 (Cls ''0123456789'')))))))"

text \<open>
  \<^verbatim>\<open>new RegExp(src)\<close> on a string supplied at run time. A pattern with an
  unterminated group, an unmatched closing parenthesis, an unterminated character
  class or a trailing backslash is a \<^verbatim>\<open>SyntaxError\<close> on every host; \<open>well_bracketed\<close>
  checks exactly that (a backslash escapes the next character; inside a class only
  \<^verbatim>\<open>]\<close> is special). Every other pattern is the host's to accept or reject.
\<close>

fun well_bracketed :: "nat \<Rightarrow> bool \<Rightarrow> string \<Rightarrow> bool" where
  "well_bracketed depth cls [] = (depth = 0 \<and> \<not> cls)"
| "well_bracketed depth cls (c # cs) =
     (if c = CHR 0x5C then (case cs of [] \<Rightarrow> False | d # cs' \<Rightarrow> well_bracketed depth cls cs')
      else if cls then well_bracketed depth (c \<noteq> CHR '']'') cs
      else if c = CHR ''['' then well_bracketed depth True cs
      else if c = CHR ''('' then well_bracketed (Suc depth) False cs
      else if c = CHR '')'' then 0 < depth \<and> well_bracketed (depth - 1) False cs
      else well_bracketed depth False cs)"

definition RegExp_new :: "host \<Rightarrow> string \<Rightarrow> bool \<Rightarrow> js_error + (string \<Rightarrow> bool)" where
  "RegExp_new H src ignoreCase =
     (if well_bracketed 0 False src
      then (case RegExp_host H src ignoreCase of None \<Rightarrow> Inl SyntaxError | Some t \<Rightarrow> Inr t)
      else Inl SyntaxError)"

subsection \<open>Dates\<close>

text \<open>
  \<^verbatim>\<open>Date.parse\<close> must read the ISO calendar date \<^verbatim>\<open>YYYY-MM-DD\<close> as midnight UTC of
  that day; \<open>iso_date\<close> computes its time value when the month and the day exist. What
  any other string parses to is the host's choice.
\<close>

definition is_leap :: "int \<Rightarrow> bool" where
  "is_leap y = (y mod 4 = 0 \<and> (y mod 100 \<noteq> 0 \<or> y mod 400 = 0))"

definition days_in_month :: "int \<Rightarrow> int \<Rightarrow> int" where
  "days_in_month y m =
     (if m = 2 then (if is_leap y then 29 else 28)
      else if m = 4 \<or> m = 6 \<or> m = 9 \<or> m = 11 then 30 else 31)"

definition days_from_civil :: "int \<Rightarrow> int \<Rightarrow> int \<Rightarrow> int" where
  "days_from_civil y m d =
     (let y' = (if m \<le> 2 then y - 1 else y);
          era = y' div 400;
          yoe = y' - era * 400;
          mp = (m + 9) mod 12;
          doy = (153 * mp + 2) div 5 + d - 1;
          doe = yoe * 365 + yoe div 4 - yoe div 100 + doy
      in era * 146097 + doe - 719468)"

definition iso_date :: "string \<Rightarrow> int option" where
  "iso_date s =
     (if length s = 10 \<and> s ! 4 = CHR ''-'' \<and> s ! 7 = CHR ''-'' \<and>
         is_digits (take 4 s) \<and> is_digits (take 2 (drop 5 s)) \<and> is_digits (drop 8 s)
      then
        (let y = int_of_digits (take 4 s);
             m = int_of_digits (take 2 (drop 5 s));
             d = int_of_digits (drop 8 s)
         in if 1 \<le> m \<and> m \<le> 12 \<and> 1 \<le> d \<and> d \<le> days_in_month y m
            then Some (days_from_civil y m d * 86400000) else None)
      else None)"

definition Date_parse :: "host \<Rightarrow> string \<Rightarrow> int option" where
  "Date_parse H s = (case iso_date s of Some t \<Rightarrow> Some t | None \<Rightarrow> Date_parse_host H s)"

section \<open>The validators\<close>

text \<open>
  Each validator is the source function of the same name. A validator that can throw
  returns a sum; the others return their outcome directly.
\<close>

subsection \<open>Format\<close>

definition checkDataType :: "host \<Rightarrow> string \<Rightarrow> js_value \<Rightarrow> outcome" where
  "checkDataType H v dataType =
     (if dataType = VStr ''email'' then
        \<lparr>passed = rx_test emailRegex v,
         message = Some (''Value '' @ quoted v @ '' is not a valid email address'')\<rparr>
      else if dataType = VStr ''phone'' then
        \<lparr>passed = rx_test phoneRegex v,
         message = Some (''Value '' @ quoted v @ '' is not a valid phone number'')\<rparr>
      else if dataType = VStr ''url'' then
        (if URL_host H v then pass
         else fail (''Value '' @ quoted v @ '' is not a valid URL''))
      else if dataType = VStr ''number'' then
        \<lparr>passed = \<not> isNaN (StringToNumber H v),
         message = Some (''Value '' @ quoted v @ '' is not a valid number'')\<rparr>
      else if dataType = VStr ''date'' then
        \<lparr>passed = (Date_parse H v \<noteq> None),
         message = Some (''Value '' @ quoted v @ '' is not a valid date'')\<rparr>
      else pass)"

definition validateFormat :: "host \<Rightarrow> rule \<Rightarrow> js_value \<Rightarrow> js_error + outcome" where
  "validateFormat H rule v =
     (if v = VUndefined \<or> v = VNull then Inr pass
      else
        let stringValue = ToString H v;
            dataType = key (config rule) ''dataType'';
            pattern = key (config rule) ''pattern''
        in if ToBoolean dataType \<and> \<not> passed (checkDataType H stringValue dataType)
           then Inr (checkDataType H stringValue dataType)
           else if ToBoolean pattern then
             (case RegExp_new H (ToString H pattern) False of
                Inl e \<Rightarrow> Inl e
              | Inr regex_test \<Rightarrow>
                  if \<not> regex_test stringValue
                  then Inr (fail (''Value '' @ quoted stringValue @ '' does not match required format pattern''))
                  else Inr pass)
           else Inr pass)"

subsection \<open>Range\<close>

definition range_nan_message :: "string \<Rightarrow> string" where
  "range_nan_message s = ''Value '' @ quoted s @ '' is not a valid number for range validation''"

definition validateRange :: "host \<Rightarrow> rule \<Rightarrow> js_value \<Rightarrow> outcome" where
  "validateRange H rule v =
     (if v = VUndefined \<or> v = VNull then pass
      else
        let numValue = ToNumber H v in
        if isNaN numValue
        then fail (range_nan_message (ToString H v))
        else
          let min = key (config rule) ''min'';
              max = key (config rule) ''max'';
              inclusive = \<not> strict_eq (key (config rule) ''inclusive'') (VBool False);
              r1 = (if min \<noteq> VUndefined \<and>
                       (if inclusive then js_lt H (VNum numValue) min
                        else js_le H (VNum numValue) min)
                    then \<lparr>passed = False,
                          message = Some (''Value '' @ Number_toString H numValue @ '' is below minimum ''
                            @ (if inclusive then [] else ''exclusive '') @ ''limit of '' @ ToString H min)\<rparr>
                    else \<lparr>passed = True, message = Some []\<rparr>)
          in if max \<noteq> VUndefined \<and> passed r1 \<and>
                (if inclusive then js_gt H (VNum numValue) max
                 else js_ge H (VNum numValue) max)
             then \<lparr>passed = False,
                   message = Some (''Value '' @ Number_toString H numValue @ '' is above maximum ''
                     @ (if inclusive then [] else ''exclusive '') @ ''limit of '' @ ToString H max)\<rparr>
             else r1)"

subsection \<open>Completeness\<close>

definition validateCompleteness :: "host \<Rightarrow> rule \<Rightarrow> js_value \<Rightarrow> outcome" where
  "validateCompleteness H rule v =
     (let required = key (config rule) ''required'';
          notEmpty = key (config rule) ''notEmpty'';
          minLength = key (config rule) ''minLength''
      in
        if strict_eq required (VBool True) \<and> (v = VUndefined \<or> v = VNull)
        then fail ''Required field is missing''
        else if strict_eq notEmpty (VBool True) \<and>
                (v = VUndefined \<or> v = VNull \<or> trim (ToString H v) = [])
        then fail ''Field must not be empty''
        else if minLength \<noteq> VUndefined then
          (if v = VUndefined \<or> v = VNull then
             (if \<not> strict_eq required (VBool True) then pass else pass)
           else
             let stringValue = ToString H v in
             if js_lt H (VNum (Fin (of_nat (length stringValue)))) minLength
             then fail (''Field length '' @ string_of_nat (length stringValue)
                        @ '' is below minimum required length of '' @ ToString H minLength)
             else pass)
        else pass)"

subsection \<open>Uniqueness\<close>

definition count_occurrences :: "dataset \<Rightarrow> js_value \<Rightarrow> nat" where
  "count_occurrences dataset v =
     length (filter (\<lambda>field. strict_eq (getProp dataset field) v) (keys dataset))"

definition validateUniqueness :: "host \<Rightarrow> rule \<Rightarrow> js_value \<Rightarrow> dataset \<Rightarrow> outcome" where
  "validateUniqueness H rule v dataset =
     (if v = VUndefined \<or> v = VNull then pass
      else if 1 < count_occurrences dataset v
      then fail (''Value '' @ quoted (ToString H v) @ '' is not unique within the dataset'')
      else pass)"

subsection \<open>Cross-field: the legacy expression evaluator\<close>

definition resolveValue :: "js_value \<Rightarrow> dataset \<Rightarrow> js_value" where
  "resolveValue v dataset =
     (case v of
        VStr s \<Rightarrow>
          if startsWith s ''{'' \<and> endsWith s ''}''
          then getProp dataset (substring s 1 (length s - 1))
          else v
      | _ \<Rightarrow> v)"

text \<open>
  \<^verbatim>\<open>const [left, right] = expression.split(op).map(s => s.trim())\<close>: the second
  piece, trimmed; \<^verbatim>\<open>undefined\<close> if there is none.
\<close>

definition right_of :: "string \<Rightarrow> string \<Rightarrow> js_value" where
  "right_of expression op =
     (case drop 1 (map trim (split expression op)) of [] \<Rightarrow> VUndefined | r # rest \<Rightarrow> VStr r)"

definition evaluateExpression :: "host \<Rightarrow> js_value \<Rightarrow> js_value \<Rightarrow> dataset \<Rightarrow> bool" where
  "evaluateExpression H expression dependentValue dataset =
     (case expression of
        VStr e \<Rightarrow>
          if str_includes e ''=='' then
            loose_eq H dependentValue (resolveValue (right_of e ''=='') dataset)
          else if str_includes e ''!='' then
            \<not> loose_eq H dependentValue (resolveValue (right_of e ''!='') dataset)
          else if str_includes e ''>='' then
            num_ge (ToNumber H dependentValue) (ToNumber H (resolveValue (right_of e ''>='') dataset))
          else if str_includes e ''<='' then
            num_le (ToNumber H dependentValue) (ToNumber H (resolveValue (right_of e ''<='') dataset))
          else if str_includes e ''>'' then
            num_gt (ToNumber H dependentValue) (ToNumber H (resolveValue (right_of e ''>'') dataset))
          else if str_includes e ''<'' then
            num_lt (ToNumber H dependentValue) (ToNumber H (resolveValue (right_of e ''<'') dataset))
          else if str_includes e ''includes'' then
            str_includes (ToString H dependentValue)
              (ToString H (resolveValue (right_of e ''includes'') dataset))
          else ToBoolean expression
      | VBool b \<Rightarrow> b
      | _ \<Rightarrow> ToBoolean expression)"

text \<open>
  Nothing in \<open>evaluateExpression\<close> can throw on scalar operands, so the
  \<^verbatim>\<open>catch\<close> branch of the source is never taken and the result is the bare
  \<^verbatim>\<open>{ passed: result }\<close>, which has no \<^verbatim>\<open>message\<close>.
\<close>

definition validateLegacyCrossField :: "host \<Rightarrow> rule \<Rightarrow> js_value \<Rightarrow> dataset \<Rightarrow> outcome" where
  "validateLegacyCrossField H rule v dataset =
     (let dependentField = key (config rule) ''dependentField'';
          condition = key (config rule) ''condition''
      in if \<not> ToBoolean dependentField \<or> \<not> ToBoolean condition then pass
         else
           let dependentValue = getField H dataset dependentField
           in \<lparr>passed = evaluateExpression H condition dependentValue dataset, message = None\<rparr>)"

subsection \<open>Cross-field: conditional\<close>

definition or_default :: "js_value \<Rightarrow> string \<Rightarrow> js_value" where
  "or_default v d = (if ToBoolean v then v else VStr d)"

text \<open>
  The message of a failed target condition is \<^verbatim>\<open>condition.message || default\<close>; its
  only reader interpolates it into a string, so the outcome carries it as a string.
\<close>

definition evaluateTargetCondition :: "host \<Rightarrow> js_value \<Rightarrow> js_object \<Rightarrow> js_error + outcome" where
  "evaluateTargetCondition H v condition =
     (if condition ''type'' = VStr ''required'' then
        (if v = VUndefined \<or> v = VNull \<or> v = VStr []
         then Inr (fail (ToString H (or_default (condition ''message'')
                    ''Field is required based on conditional rule'')))
         else Inr pass)
      else if condition ''type'' = VStr ''format'' then
        (if ToBoolean (condition ''pattern'') then
           (case RegExp_new H (ToString H (condition ''pattern'')) False of
              Inl e \<Rightarrow> Inl e
            | Inr regex_test \<Rightarrow>
                if \<not> regex_test (ToString H v)
                then Inr (fail (ToString H (or_default (condition ''message'')
                       (''Value does not match required format: '' @ ToString H (condition ''pattern'')))))
                else Inr pass)
         else Inr pass)
      else if condition ''type'' = VStr ''range'' then
        (let numValue = ToNumber H v in
         if isNaN numValue
         then Inr (fail (ToString H (or_default (condition ''message'') ''Value must be a number'')))
         else if condition ''min'' \<noteq> VUndefined \<and> js_lt H (VNum numValue) (condition ''min'')
         then Inr (fail (ToString H (or_default (condition ''message'')
                (''Value '' @ Number_toString H numValue @ '' is below minimum ''
                 @ ToString H (condition ''min'')))))
         else if condition ''max'' \<noteq> VUndefined \<and> js_gt H (VNum numValue) (condition ''max'')
         then Inr (fail (ToString H (or_default (condition ''message'')
                (''Value '' @ Number_toString H numValue @ '' is above maximum ''
                 @ ToString H (condition ''max'')))))
         else Inr pass)
      else Inr pass)"

definition condition_met :: "host \<Rightarrow> js_value \<Rightarrow> js_value \<Rightarrow> js_value \<Rightarrow> bool" where
  "condition_met H conditionOperator conditionFieldValue conditionValue =
     (if conditionOperator = VStr ''equals'' then loose_eq H conditionFieldValue conditionValue
      else if conditionOperator = VStr ''notEquals'' then \<not> loose_eq H conditionFieldValue conditionValue
      else if conditionOperator = VStr ''greaterThan'' then
        num_gt (ToNumber H conditionFieldValue) (ToNumber H conditionValue)
      else if conditionOperator = VStr ''lessThan'' then
        num_lt (ToNumber H conditionFieldValue) (ToNumber H conditionValue)
      else if conditionOperator = VStr ''greaterThanOrEqual'' then
        num_ge (ToNumber H conditionFieldValue) (ToNumber H conditionValue)
      else if conditionOperator = VStr ''lessThanOrEqual'' then
        num_le (ToNumber H conditionFieldValue) (ToNumber H conditionValue)
      else if conditionOperator = VStr ''contains'' then
        str_includes (ToString H conditionFieldValue) (ToString H conditionValue)
      else if conditionOperator = VStr ''startsWith'' then
        startsWith (ToString H conditionFieldValue) (ToString H conditionValue)
      else if conditionOperator = VStr ''endsWith'' then
        endsWith (ToString H conditionFieldValue) (ToString H conditionValue)
      else loose_eq H conditionFieldValue conditionValue)"

definition validateConditionalCrossField ::
    "host \<Rightarrow> rule \<Rightarrow> js_value \<Rightarrow> dataset \<Rightarrow> js_error + outcome" where
  "validateConditionalCrossField H rule v dataset =
     (let conditionField = key (config rule) ''conditionField'';
          conditionValue = key (config rule) ''conditionValue'';
          conditionOperator = or_default (key (config rule) ''conditionOperator'') ''equals'';
          targetField = key (config rule) ''targetField''
      in if \<not> ToBoolean conditionField \<or> \<not> ToBoolean targetField then Inr pass
         else
           let conditionFieldValue = getField H dataset conditionField;
               targetFieldValue = getField H dataset targetField
           in if condition_met H conditionOperator conditionFieldValue conditionValue then
                (case targetCondition (config rule) of
                   None \<Rightarrow> Inr pass
                 | Some tc \<Rightarrow>
                     (case evaluateTargetCondition H targetFieldValue tc of
                        Inl e \<Rightarrow> Inl e
                      | Inr targetValidation \<Rightarrow>
                          if \<not> passed targetValidation
                          then Inr (fail (''Conditional validation failed: '' @
                                 (case message targetValidation of
                                    Some m \<Rightarrow> m | None \<Rightarrow> ''undefined'')))
                          else Inr pass))
              else Inr pass)"

subsection \<open>Cross-field: comparison\<close>

definition isValidDate :: "host \<Rightarrow> js_value \<Rightarrow> bool" where
  "isValidDate H v = (case v of VStr s \<Rightarrow> Date_parse H s \<noteq> None | _ \<Rightarrow> False)"

text \<open>
  \<^verbatim>\<open>new Date(v)\<close> for a string that \<open>isValidDate\<close> accepts. The engine only ever
  orders such dates or converts them with \<^verbatim>\<open>Number\<close>, and both read the time value,
  so the date object is carried as that number.
\<close>

definition new_Date :: "host \<Rightarrow> js_value \<Rightarrow> js_value" where
  "new_Date H v =
     (case v of
        VStr s \<Rightarrow> (case Date_parse H s of Some t \<Rightarrow> VNum (Fin (of_int t)) | None \<Rightarrow> VNum NaN)
      | _ \<Rightarrow> VNum NaN)"

definition coercing_operators :: "string list" where
  "coercing_operators =
     [''lessThan'', ''greaterThan'', ''lessThanOrEqual'', ''greaterThanOrEqual'',
      ''sumEquals'', ''sumLessThan'', ''sumGreaterThan'']"

definition coerce_pair :: "host \<Rightarrow> js_value \<Rightarrow> js_value \<Rightarrow> js_value \<Rightarrow> js_value \<times> js_value" where
  "coerce_pair H comparisonOperator value1 value2 =
     (if comparisonOperator \<in> VStr ` set coercing_operators then
        (if isValidDate H value1 \<and> isValidDate H value2
         then (new_Date H value1, new_Date H value2)
         else (VNum (ToNumber H value1), VNum (ToNumber H value2)))
      else (value1, value2))"

definition compare_values :: "host \<Rightarrow> js_value \<Rightarrow> js_value \<Rightarrow> js_value \<Rightarrow> js_value \<Rightarrow> bool" where
  "compare_values H comparisonOperator value1 value2 expectedSum =
     (if comparisonOperator = VStr ''equals'' then loose_eq H value1 value2
      else if comparisonOperator = VStr ''notEquals'' then \<not> loose_eq H value1 value2
      else if comparisonOperator = VStr ''greaterThan'' then js_gt H value1 value2
      else if comparisonOperator = VStr ''lessThan'' then js_lt H value1 value2
      else if comparisonOperator = VStr ''greaterThanOrEqual'' then js_ge H value1 value2
      else if comparisonOperator = VStr ''lessThanOrEqual'' then js_le H value1 value2
      else if comparisonOperator = VStr ''sumEquals'' then
        num_eq (num_add H (ToNumber H value1) (ToNumber H value2)) (ToNumber H expectedSum)
      else if comparisonOperator = VStr ''sumLessThan'' then
        num_lt (num_add H (ToNumber H value1) (ToNumber H value2)) (ToNumber H expectedSum)
      else if comparisonOperator = VStr ''sumGreaterThan'' then
        num_gt (num_add H (ToNumber H value1) (ToNumber H value2)) (ToNumber H expectedSum)
      else loose_eq H value1 value2)"

definition validateComparisonCrossField :: "host \<Rightarrow> rule \<Rightarrow> js_value \<Rightarrow> dataset \<Rightarrow> outcome" where
  "validateComparisonCrossField H rule v dataset =
     (let field1 = key (config rule) ''field1'';
          field2 = key (config rule) ''field2'';
          comparisonOperator = key (config rule) ''comparisonOperator''
      in if \<not> ToBoolean field1 \<or> \<not> ToBoolean field2 \<or> \<not> ToBoolean comparisonOperator then pass
         else
           let (value1, value2) =
                 coerce_pair H comparisonOperator (getField H dataset field1) (getField H dataset field2);
               comparisonResult =
                 compare_values H comparisonOperator value1 value2 (key (config rule) ''expectedSum'')
           in if \<not> comparisonResult
              then fail (''Comparison validation failed: '' @ ToString H field1 @ '' ''
                         @ ToString H comparisonOperator @ '' '' @ ToString H field2
                         @ '' condition not met'')
              else pass)"

subsection \<open>Cross-field: dependency and business rules\<close>

definition validateDependencyCrossField :: "host \<Rightarrow> rule \<Rightarrow> js_value \<Rightarrow> dataset \<Rightarrow> outcome" where
  "validateDependencyCrossField H rule v dataset =
     (let dependentField = key (config rule) ''dependentField'';
          requiredValue = key (config rule) ''requiredValue'';
          targetField = key (config rule) ''targetField''
      in if \<not> ToBoolean dependentField \<or> \<not> ToBoolean targetField then pass
         else
           let dependentValue = getField H dataset dependentField;
               targetValue = getField H dataset targetField
           in if loose_eq H dependentValue requiredValue \<and>
                 (targetValue = VUndefined \<or> targetValue = VNull \<or> targetValue = VStr [])
              then fail (''When '' @ ToString H dependentField @ '' is '' @ ToString H requiredValue
                         @ '', '' @ ToString H targetField @ '' is required'')
              else pass)"

definition validateAgeVerificationRule :: "host \<Rightarrow> dataset \<Rightarrow> outcome" where
  "validateAgeVerificationRule H dataset =
     (let age = getProp dataset ''age'';
          idType = getProp dataset ''idType'';
          verificationDocument = getProp dataset ''verificationDocument''
      in if js_ge H age (VNum (Fin 18)) \<and> (\<not> ToBoolean idType \<or> \<not> ToBoolean verificationDocument)
         then fail ''For users 18 or older, ID type and verification document are required''
         else pass)"

definition validateEmailOrPhoneRequiredRule :: "dataset \<Rightarrow> outcome" where
  "validateEmailOrPhoneRequiredRule dataset =
     (let email = getProp dataset ''email'';
          phone = getProp dataset ''phone''
      in if (\<not> ToBoolean email \<or> strict_eq email (VStr [])) \<and>
            (\<not> ToBoolean phone \<or> strict_eq phone (VStr []))
         then fail ''Either email or phone must be provided''
         else pass)"

definition validateMinorsConsentRule :: "host \<Rightarrow> dataset \<Rightarrow> outcome" where
  "validateMinorsConsentRule H dataset =
     (let age = getProp dataset ''age'';
          guardianConsent = getProp dataset ''guardianConsent'';
          guardianEmail = getProp dataset ''guardianEmail''
      in if js_lt H age (VNum (Fin 18)) then
           (if \<not> ToBoolean guardianConsent
            then fail ''Guardian consent is required for users under 18''
            else if \<not> ToBoolean guardianEmail
            then fail ''Guardian email is required for users under 18''
            else pass)
         else pass)"

definition employment_statuses :: "string list" where
  "employment_statuses = [''employed'', ''self-employed'', ''retired'', ''unemployed'', ''student'']"

definition validateSalaryVerificationRule :: "host \<Rightarrow> dataset \<Rightarrow> outcome" where
  "validateSalaryVerificationRule H dataset =
     (let salary = getProp dataset ''salary'';
          salaryVerification = getProp dataset ''salaryVerification'';
          employmentStatus = getProp dataset ''employmentStatus''
      in if js_gt H salary (VNum (Fin 100000)) \<and> \<not> ToBoolean salaryVerification
         then fail ''Salary verification is required for salaries above 100,000''
         else if js_gt H salary (VNum (Fin 0)) \<and>
                 list_all (\<lambda>st. \<not> strict_eq employmentStatus (VStr st)) employment_statuses
         then fail ''Valid employment status must be provided when salary is specified''
         else pass)"

definition validateBusinessRuleCrossField :: "host \<Rightarrow> rule \<Rightarrow> js_value \<Rightarrow> dataset \<Rightarrow> outcome" where
  "validateBusinessRuleCrossField H rule v dataset =
     (let businessRule = key (config rule) ''businessRule''
      in if \<not> ToBoolean businessRule then pass
         else if businessRule = VStr ''age-verification'' then validateAgeVerificationRule H dataset
         else if businessRule = VStr ''email-phone-required'' then validateEmailOrPhoneRequiredRule dataset
         else if businessRule = VStr ''minors-consent'' then validateMinorsConsentRule H dataset
         else if businessRule = VStr ''salary-verification'' then validateSalaryVerificationRule H dataset
         else pass)"

subsection \<open>Cross-field dispatch, custom rules\<close>

text \<open>
  A rule's configuration is always an object here, so the guard
  \<^verbatim>\<open>if (!rule.configuration)\<close> of the source is never taken.
\<close>

definition validateCrossField :: "host \<Rightarrow> rule \<Rightarrow> js_value \<Rightarrow> dataset \<Rightarrow> js_error + outcome" where
  "validateCrossField H rule v dataset =
     (let type = key (config rule) ''type''
      in if type = VStr ''conditional'' then validateConditionalCrossField H rule v dataset
         else if type = VStr ''comparison'' then Inr (validateComparisonCrossField H rule v dataset)
         else if type = VStr ''dependency'' then Inr (validateDependencyCrossField H rule v dataset)
         else if type = VStr ''businessRule'' then Inr (validateBusinessRuleCrossField H rule v dataset)
         else Inr (validateLegacyCrossField H rule v dataset))"

definition validateCustom :: "rule \<Rightarrow> js_value \<Rightarrow> dataset \<Rightarrow> outcome" where
  "validateCustom rule v dataset = pass"

section \<open>The engine\<close>

definition executeRule :: "host \<Rightarrow> rule \<Rightarrow> js_value \<Rightarrow> dataset \<Rightarrow> js_error + outcome" where
  "executeRule H rule v dataset =
     (if ruleType rule = VStr ''format'' then validateFormat H rule v
      else if ruleType rule = VStr ''range'' then Inr (validateRange H rule v)
      else if ruleType rule = VStr ''completeness'' then Inr (validateCompleteness H rule v)
      else if ruleType rule = VStr ''uniqueness'' then Inr (validateUniqueness H rule v dataset)
      else if ruleType rule = VStr ''crossField'' then validateCrossField H rule v dataset
      else if ruleType rule = VStr ''custom'' then Inr (validateCustom rule v dataset)
      else Inr (fail (''Unknown rule type: '' @ ToString H (ruleType rule))))"

text \<open>
  The exact-match branch calls \<^verbatim>\<open>dataset.hasOwnProperty(pattern)\<close>: the method is
  looked up on the record itself, so a record with an own field of that name makes
  the call a \<^verbatim>\<open>TypeError\<close>.
\<close>

definition findMatchingFields :: "host \<Rightarrow> string \<Rightarrow> dataset \<Rightarrow> js_error + string list" where
  "findMatchingFields H pattern dataset =
     (if pattern = ''*'' then Inr (keys dataset)
      else if str_includes pattern ''*'' then
        (case RegExp_new H (''^'' @ replace_stars pattern @ ''$'') True of
           Inl e \<Rightarrow> Inl e
         | Inr regex_test \<Rightarrow> Inr (filter regex_test (keys dataset)))
      else if getProp dataset ''hasOwnProperty'' = VObj ''hasOwnProperty'' then
        Inr (if pattern \<in> set (keys dataset) then [pattern] else [])
      else Inl TypeError)"

definition getFieldValue :: "string \<Rightarrow> dataset \<Rightarrow> js_value" where
  "getFieldValue field dataset = getProp dataset field"

definition or_error :: "js_value \<Rightarrow> js_value" where
  "or_error sev = (if ToBoolean sev then sev else VStr ''error'')"

text \<open>
  The loop of \<open>applyRule\<close> over the matching fields, threading \<^verbatim>\<open>this.results\<close>.
  A validator always returns an object, so the test \<^verbatim>\<open>if (validationResult)\<close> always
  succeeds and every field visited appends one result.
\<close>

fun applyFields ::
    "host \<Rightarrow> rule \<Rightarrow> dataset \<Rightarrow> string list \<Rightarrow> validation_result list \<Rightarrow> js_error + validation_result list" where
  "applyFields H rule dataset [] results = Inr results"
| "applyFields H rule dataset (field # rest) results =
     (let fieldValue = getFieldValue field dataset in
      case executeRule H rule fieldValue dataset of
        Inl e \<Rightarrow> Inl e
      | Inr validationResult \<Rightarrow>
          applyFields H rule dataset rest
            (results @ [\<lparr>r_ruleId = rule_id rule,
                          r_ruleName = rule_name rule,
                          r_field = field,
                          r_value = fieldValue,
                          r_severity = or_error (severity rule),
                          r_message = message validationResult,
                          r_passed = passed validationResult\<rparr>]))"

definition applyRule ::
    "host \<Rightarrow> rule \<Rightarrow> dataset \<Rightarrow> validation_result list \<Rightarrow> js_error + validation_result list" where
  "applyRule H rule dataset results =
     (case findMatchingFields H (target_field rule) dataset of
        Inl e \<Rightarrow> Inl e
      | Inr matchingFields \<Rightarrow> applyFields H rule dataset matchingFields results)"

fun applyRules ::
    "host \<Rightarrow> rule list \<Rightarrow> dataset \<Rightarrow> validation_result list \<Rightarrow> js_error + validation_result list" where
  "applyRules H [] dataset results = Inr results"
| "applyRules H (rule # rest) dataset results =
     (if \<not> strict_eq (enabled rule) (VBool False) then
        (case applyRule H rule dataset results of
           Inl e \<Rightarrow> Inl e
         | Inr results' \<Rightarrow> applyRules H rest dataset results')
      else applyRules H rest dataset results)"

text \<open>
  The engine object: the loaded rules and the result list. \<open>validate\<close> returns what the
  source returns, or the error it throws.
\<close>

record engine =
  rules :: "rule list"
  results :: "validation_result list"

definition new_engine :: engine where
  "new_engine = \<lparr>rules = [], results = []\<rparr>"

definition loadRules :: "rule list \<Rightarrow> engine \<Rightarrow> engine" where
  "loadRules rs eng = eng\<lparr>rules := rs\<rparr>"

definition validate :: "host \<Rightarrow> engine \<Rightarrow> dataset \<Rightarrow> js_error + validation_result list" where
  "validate H eng dataset = applyRules H (rules eng) dataset []"

section \<open>Fixtures for the worked examples\<close>

text \<open>
  The closed examples below are evaluated on \<open>bare_host\<close>. None of them reaches a
  host function, so each holds on every host; the fields only make the host total.
\<close>

definition bare_host :: host where
  "bare_host =
     \<lparr>RegExp_host = (\<lambda>src i. Some (\<lambda>s. True)),
      Date_parse_host = (\<lambda>s. None),
      URL_host = (\<lambda>s. True),
      Number_host = (\<lambda>s. NaN),
      add_host = (\<lambda>a b. Fin (a + b)),
      Number_toString_host = (\<lambda>q. []),
      Object_toString_host = (\<lambda>k. [])\<rparr>"

definition config_of :: "(string \<times> js_value) list \<Rightarrow> configuration" where
  "config_of kvs =
     \<lparr>key = (\<lambda>k. case map_of kvs k of Some v \<Rightarrow> v | None \<Rightarrow> VUndefined),
      targetCondition = None\<rparr>"

definition example_rule :: "string \<Rightarrow> string \<Rightarrow> (string \<times> js_value) list \<Rightarrow> rule" where
  "example_rule kind target kvs =
     \<lparr>rule_id = VStr ''rule-1'', rule_name = VStr ''Example rule'', ruleType = VStr kind,
      target_field = target, config = config_of kvs,
      severity = VUndefined, enabled = VUndefined\<rparr>"

definition range_0_150 :: rule where
  "range_0_150 =
     example_rule ''range'' ''age''
       [(''min'', VNum (Fin 0)), (''max'', VNum (Fin 150)), (''inclusive'', VBool True)]"

section \<open>Properties of the range validator\<close>

text \<open>
  The two bound tests of \<open>validateRange\<close> on a number \<open>n\<close>, and the statement that 0
  lies within the configured bounds.
\<close>

definition below_min :: "host \<Rightarrow> rule \<Rightarrow> jsnum \<Rightarrow> bool" where
  "below_min H rule n =
     (if strict_eq (key (config rule) ''inclusive'') (VBool False)
      then js_le H (VNum n) (key (config rule) ''min'')
      else js_lt H (VNum n) (key (config rule) ''min''))"

definition above_max :: "host \<Rightarrow> rule \<Rightarrow> jsnum \<Rightarrow> bool" where
  "above_max H rule n =
     (if strict_eq (key (config rule) ''inclusive'') (VBool False)
      then js_ge H (VNum n) (key (config rule) ''max'')
      else js_gt H (VNum n) (key (config rule) ''max''))"

definition zero_within_bounds :: "host \<Rightarrow> rule \<Rightarrow> bool" where
  "zero_within_bounds H rule =
     ((key (config rule) ''min'' = VUndefined \<or> \<not> below_min H rule (Fin 0)) \<and>
      (key (config rule) ''max'' = VUndefined \<or> \<not> above_max H rule (Fin 0)))"

definition set_max :: "js_value \<Rightarrow> rule \<Rightarrow> rule" where
  "set_max m rule = rule\<lparr>config := (config rule)\<lparr>key := (key (config rule))(''max'' := m)\<rparr>\<rparr>"

definition below_min_message :: "host \<Rightarrow> rule \<Rightarrow> jsnum \<Rightarrow> string" where
  "below_min_message H rule n =
     ''Value '' @ Number_toString H n @ '' is below minimum ''
     @ (if strict_eq (key (config rule) ''inclusive'') (VBool False) then ''exclusive '' else [])
     @ ''limit of '' @ ToString H (key (config rule) ''min'')"

definition coerces_to_finite :: "host \<Rightarrow> js_value \<Rightarrow> bool" where
  "coerces_to_finite H v = (case ToNumber H v of Fin q \<Rightarrow> True | _ \<Rightarrow> False)"

text \<open>
  What comparing a number \<open>n\<close> with the configured bounds comes to: \<open>within_bounds\<close>
  says that no configured bound excludes \<open>n\<close>, and \<open>bounds_outcome\<close> is the outcome of
  the comparison (the failure for the minimum, else the failure for the maximum, else
  a pass with the empty message).
\<close>

definition above_max_message :: "host \<Rightarrow> rule \<Rightarrow> jsnum \<Rightarrow> string" where
  "above_max_message H rule n =
     ''Value '' @ Number_toString H n @ '' is above maximum ''
     @ (if strict_eq (key (config rule) ''inclusive'') (VBool False) then ''exclusive '' else [])
     @ ''limit of '' @ ToString H (key (config rule) ''max'')"

definition within_bounds :: "host \<Rightarrow> rule \<Rightarrow> jsnum \<Rightarrow> bool" where
  "within_bounds H rule n =
     ((key (config rule) ''min'' = VUndefined \<or> \<not> below_min H rule n) \<and>
      (key (config rule) ''max'' = VUndefined \<or> \<not> above_max H rule n))"

definition bounds_outcome :: "host \<Rightarrow> rule \<Rightarrow> jsnum \<Rightarrow> outcome" where
  "bounds_outcome H rule n =
     (if key (config rule) ''min'' \<noteq> VUndefined \<and> below_min H rule n
      then fail (below_min_message H rule n)
      else if key (config rule) ''max'' \<noteq> VUndefined \<and> above_max H rule n
      then fail (above_max_message H rule n)
      else \<lparr>passed = True, message = Some []\<rparr>)"

definition range_from_1 :: rule where
  "range_from_1 = example_rule ''range'' ''quantity'' [(''min'', VNum (Fin 1))]"

section \<open>The completeness checks, as the specification lists them\<close>

text \<open>
  Section 4.5 of the specification describes the completeness validator as three
  checks taken in a fixed order, each skipped when it is not configured, the first
  violated one deciding the outcome. \<open>completeness_checks\<close> lists them in that order
  and \<open>first_failure\<close> runs such a list.
\<close>

record check =
  configured :: bool
  violated :: bool
  failure :: string

definition completeness_checks :: "host \<Rightarrow> rule \<Rightarrow> js_value \<Rightarrow> check list" where
  "completeness_checks H rule v =
     [\<lparr>configured = (key (config rule) ''required'' = VBool True),
       violated = (v = VUndefined \<or> v = VNull),
       failure = ''Required field is missing''\<rparr>,
      \<lparr>configured = (key (config rule) ''notEmpty'' = VBool True),
       violated = (v = VUndefined \<or> v = VNull \<or> trim (ToString H v) = []),
       failure = ''Field must not be empty''\<rparr>,
      \<lparr>configured = (key (config rule) ''minLength'' \<noteq> VUndefined),
       violated = (v \<noteq> VUndefined \<and> v \<noteq> VNull \<and>
                   js_lt H (VNum (Fin (of_nat (length (ToString H v))))) (key (config rule) ''minLength'')),
       failure = ''Field length '' @ string_of_nat (length (ToString H v))
                 @ '' is below minimum required length of '' @ ToString H (key (config rule) ''minLength'')\<rparr>]"

fun first_failure :: "check list \<Rightarrow> outcome" where
  "first_failure [] = pass"
| "first_failure (c # cs) = (if configured c \<and> violated c then fail (failure c) else first_failure cs)"

definition required_not_empty :: rule where
  "required_not_empty =
     example_rule ''completeness'' ''name'' [(''required'', VBool True), (''notEmpty'', VBool True)]"

section \<open>The uniqueness example\<close>

definition five_and_five :: dataset where
  "five_and_five = [(''a'', VStr ''5''), (''b'', VNum (Fin 5))]"

section \<open>The legacy expression evaluator, as the specification describes it\<close>










section \<open>The comparison validator, as the claim describes it\<close>

text \<open>
  The claim about the comparison validator reads: whatever the operator, if both
  values parse as valid dates they are compared as dates, and otherwise both are
  coerced to numbers. \<open>claimed_comparison\<close> is that reading: the operands are always
  coerced before the operator is applied.
\<close>

definition coerced_operands :: "host \<Rightarrow> js_value \<Rightarrow> js_value \<Rightarrow> js_value \<times> js_value" where
  "coerced_operands H value1 value2 =
     (if isValidDate H value1 \<and> isValidDate H value2
      then (new_Date H value1, new_Date H value2)
      else (VNum (ToNumber H value1), VNum (ToNumber H value2)))"

definition claimed_comparison :: "host \<Rightarrow> js_value \<Rightarrow> js_value \<Rightarrow> js_value \<Rightarrow> js_value \<Rightarrow> bool" where
  "claimed_comparison H comparisonOperator value1 value2 expectedSum =
     (case coerced_operands H value1 value2 of
        (a, b) \<Rightarrow> compare_values H comparisonOperator a b expectedSum)"

definition date_order :: rule where
  "date_order =
     example_rule ''crossField'' ''endDate''
       [(''type'', VStr ''comparison''), (''field1'', VStr ''startDate''), (''field2'', VStr ''endDate''),
        (''comparisonOperator'', VStr ''lessThan'')]"

definition same_text :: rule where
  "same_text =
     example_rule ''crossField'' ''confirmation''
       [(''type'', VStr ''comparison''), (''field1'', VStr ''password''), (''field2'', VStr ''confirmation''),
        (''comparisonOperator'', VStr ''equals'')]"

section \<open>Rules whose regular expressions compile\<close>

text \<open>
  \<open>regexps_compile H rule\<close>: the patterns the validators of \<open>rule\<close> may hand to
  \<^verbatim>\<open>new RegExp\<close> (\<^verbatim>\<open>configuration.pattern\<close> and \<^verbatim>\<open>targetCondition.pattern\<close>, each only
  when truthy) are accepted on host \<open>H\<close>.
\<close>

definition compiles :: "host \<Rightarrow> js_value \<Rightarrow> bool" where
  "compiles H pattern =
     (case RegExp_new H (ToString H pattern) False of Inl e \<Rightarrow> False | Inr t \<Rightarrow> True)"

definition regexps_compile :: "host \<Rightarrow> rule \<Rightarrow> bool" where
  "regexps_compile H rule =
     ((ToBoolean (key (config rule) ''pattern'') \<longrightarrow> compiles H (key (config rule) ''pattern'')) \<and>
      (case targetCondition (config rule) of
         None \<Rightarrow> True
       | Some tc \<Rightarrow> ToBoolean (tc ''pattern'') \<longrightarrow> compiles H (tc ''pattern'')))"

definition bad_pattern_rule :: rule where
  "bad_pattern_rule = example_rule ''format'' ''*'' [(''pattern'', VStr ''[0-9'')]"

definition every_field_in_range :: rule where
  "every_field_in_range =
     example_rule ''range'' ''*'' [(''min'', VNum (Fin 0)), (''max'', VNum (Fin 150))]"

section \<open>Rules and records on which the engine misbehaves\<close>

definition bad_zip_rule :: rule where
  "bad_zip_rule = example_rule ''format'' ''zip'' [(''pattern'', VStr ''[0-9'')]"

definition phone_glob_rule :: rule where
  "phone_glob_rule = example_rule ''completeness'' ''phone(*'' [(''required'', VBool True)]"

definition name_required_rule :: rule where
  "name_required_rule = example_rule ''completeness'' ''name'' [(''required'', VBool True)]"

definition status_is_active :: rule where
  "status_is_active =
     example_rule ''crossField'' ''status''
       [(''dependentField'', VStr ''status''), (''condition'', VStr ''== active'')]"

section \<open>When the engine returns, and when a failure carries a message\<close>

text \<open>
  \<open>target_resolves H dataset pattern\<close>: resolving the target pattern against the
  record does not throw (the pattern is \<^verbatim>\<open>"*"\<close>, or a glob whose regular expression
  compiles, or an exact name looked up on a record that does not shadow
  \<^verbatim>\<open>hasOwnProperty\<close>). \<open>legacy_mode rule\<close>: the rule is a cross-field rule without one
  of the four \<^verbatim>\<open>type\<close> values, so it runs the legacy evaluator. \<open>has_message\<close> and
  \<open>result_has_message\<close>: the message is present and not empty (for a result: unless it
  passed).
\<close>

definition target_resolves :: "host \<Rightarrow> dataset \<Rightarrow> string \<Rightarrow> bool" where
  "target_resolves H dataset pattern =
     (pattern = ''*'' \<or>
      (str_includes pattern ''*'' \<and>
       (case RegExp_new H (''^'' @ replace_stars pattern @ ''$'') True of Inl e \<Rightarrow> False | Inr t \<Rightarrow> True)) \<or>
      (\<not> str_includes pattern ''*'' \<and> map_of dataset ''hasOwnProperty'' = None))"

definition legacy_mode :: "rule \<Rightarrow> bool" where
  "legacy_mode rule =
     (ruleType rule = VStr ''crossField'' \<and>
      key (config rule) ''type'' \<notin> VStr ` set [''conditional'', ''comparison'', ''dependency'', ''businessRule''])"

definition has_message :: "outcome \<Rightarrow> bool" where
  "has_message out = (case message out of None \<Rightarrow> False | Some m \<Rightarrow> m \<noteq> [])"

definition result_has_message :: "validation_result \<Rightarrow> bool" where
  "result_has_message r = (r_passed r \<or> (case r_message r of None \<Rightarrow> False | Some m \<Rightarrow> m \<noteq> []))"

section \<open>Verified properties\<close>

subsection \<open>Coercion facts\<close>

lemma ToNumber_empty: "ToNumber H (VStr []) = Fin 0"
  by (simp add: ToNumber_def StringToNumber_def trim_def)

lemma ToNumber_VNum: "ToNumber H (VNum n) = n"
  by (simp add: ToNumber_def)

lemma Number_toString_zero: "Number_toString H (Fin 0) = ''0''"
  by (simp add: Number_toString_def safe_int_def is_int_def string_of_nat.simps)

subsection \<open>The range validator\<close>

lemma validateRange_coerced:
  assumes "v \<noteq> VUndefined" "v \<noteq> VNull" "ToNumber H v \<noteq> NaN"
  shows "validateRange H rule v = validateRange H rule (VNum (ToNumber H v))"
  using assms by (simp add: validateRange_def isNaN_def ToNumber_VNum Let_def)

lemma validateRange_number:
  assumes "n \<noteq> NaN"
  shows "validateRange H rule (VNum n) =
     (if key (config rule) ''min'' \<noteq> VUndefined \<and> below_min H rule n
      then fail (below_min_message H rule n)
      else if key (config rule) ''max'' \<noteq> VUndefined \<and> above_max H rule n
      then fail (''Value '' @ Number_toString H n @ '' is above maximum ''
                 @ (if strict_eq (key (config rule) ''inclusive'') (VBool False) then ''exclusive '' else [])
                 @ ''limit of '' @ ToString H (key (config rule) ''max''))
      else \<lparr>passed = True, message = Some []\<rparr>)"
  using assms
  by (simp add: validateRange_def isNaN_def ToNumber_VNum Let_def below_min_def above_max_def
        below_min_message_def fail_def)

lemma range_number_not_nan_message:
  assumes "n \<noteq> NaN" "Number_toString H n \<noteq> [] \<and> hd (Number_toString H n) \<noteq> CHR 0x27"
  shows "validateRange H rule (VNum n) \<noteq> fail (range_nan_message s)"
  using assms
  by (cases "Number_toString H n")
     (auto simp add: validateRange_number fail_def range_nan_message_def quoted_def below_min_message_def)

lemma ToNumber_abc: "ToNumber H (VStr ''abc'') = NaN"
  by (simp add: ToNumber_def StringToNumber_def trim_def js_space_def startsWith_def is_digits_def
        is_digit_def is_unsigned_decimal_def is_radix_literal_def)

lemma ToNumber_Infinity: "ToNumber H (VStr ''Infinity'') = PInf"
  by (simp add: ToNumber_def StringToNumber_def trim_def js_space_def startsWith_def)

lemma range_0_150_keys:
  "key (config range_0_150) ''min'' = VNum (Fin 0)"
  "key (config range_0_150) ''max'' = VNum (Fin 150)"
  "key (config range_0_150) ''inclusive'' = VBool True"
  by (simp_all add: range_0_150_def example_rule_def config_of_def)

lemma validateRange_bounds:
  assumes "n \<noteq> NaN"
  shows "validateRange H rule (VNum n) = bounds_outcome H rule n"
  using assms by (simp add: validateRange_number bounds_outcome_def above_max_message_def)

lemma passed_bounds_outcome: "passed (bounds_outcome H rule n) = within_bounds H rule n"
  by (auto simp add: bounds_outcome_def within_bounds_def fail_def)

lemma zero_within_bounds_eq: "zero_within_bounds H rule = within_bounds H rule (Fin 0)"
  by (simp add: zero_within_bounds_def within_bounds_def)

lemma range_from_1_keys:
  "key (config range_from_1) ''min'' = VNum (Fin 1)"
  "key (config range_from_1) ''max'' = VUndefined"
  "key (config range_from_1) ''inclusive'' = VUndefined"
  by (simp_all add: range_from_1_def example_rule_def config_of_def)

lemma Number_toString_infinite:
  "Number_toString H PInf = ''Infinity''" "Number_toString H NInf = ''-Infinity''"
  by (simp_all add: Number_toString_def)

text \<open>
  Claim C9. For every host and every range rule, the empty string is not reported as
  non-numeric: \<^verbatim>\<open>Number("")\<close> is 0, so the validator returns exactly what it returns
  for the number 0, which is never the non-numeric failure. The outcome is the one of
  comparing 0 with the configured bounds, and the empty string passes exactly when 0
  lies within them.
\<close>

theorem C9_empty_string_checked_as_zero:
  "validateRange H rule (VStr []) = validateRange H rule (VNum (Fin 0))
   \<and> validateRange H rule (VStr []) \<noteq> fail (range_nan_message (ToString H (VStr [])))
   \<and> validateRange H rule (VStr []) = bounds_outcome H rule (Fin 0)
   \<and> passed (validateRange H rule (VStr [])) = zero_within_bounds H rule"
proof -
  have eq: "validateRange H rule (VStr []) = validateRange H rule (VNum (Fin 0))"
    using validateRange_coerced [of "VStr []" H rule] by (simp add: ToNumber_empty)
  have ne: "validateRange H rule (VNum (Fin 0)) \<noteq> fail (range_nan_message s)" for s
    by (rule range_number_not_nan_message) (simp_all add: Number_toString_zero)
  have out: "validateRange H rule (VNum (Fin 0)) = bounds_outcome H rule (Fin 0)"
    by (simp add: validateRange_bounds)
  have pass: "passed (validateRange H rule (VNum (Fin 0))) = zero_within_bounds H rule"
    by (simp add: out passed_bounds_outcome zero_within_bounds_eq)
  show ?thesis using eq ne out pass by simp
qed

theorem C9_empty_string_witness:
  "zero_within_bounds bare_host range_0_150
   \<and> validateRange bare_host range_0_150 (VStr []) = \<lparr>passed = True, message = Some []\<rparr>
   \<and> \<not> zero_within_bounds bare_host range_from_1
   \<and> validateRange bare_host range_from_1 (VStr []) = fail ''Value 0 is below minimum limit of 1''"
proof -
  have z: "zero_within_bounds bare_host range_0_150"
    by (simp add: zero_within_bounds_def below_min_def above_max_def range_0_150_keys
          strict_eq_def js_lt_def js_gt_def ToNumber_def)
  have b: "bounds_outcome bare_host range_0_150 (Fin 0) = \<lparr>passed = True, message = Some []\<rparr>"
    by (simp add: bounds_outcome_def below_min_def above_max_def range_0_150_keys
          strict_eq_def js_lt_def js_gt_def ToNumber_def)
  have z1: "\<not> zero_within_bounds bare_host range_from_1"
    by (simp add: zero_within_bounds_def below_min_def range_from_1_keys
          strict_eq_def js_lt_def ToNumber_def)
  have b1: "bounds_outcome bare_host range_from_1 (Fin 0) = fail ''Value 0 is below minimum limit of 1''"
    by (simp add: bounds_outcome_def below_min_def below_min_message_def range_from_1_keys
          strict_eq_def js_lt_def ToNumber_def Number_toString_zero ToString_def Number_toString_def
          safe_int_def is_int_def string_of_nat.simps)
  have r: "validateRange bare_host range_0_150 (VStr []) = bounds_outcome bare_host range_0_150 (Fin 0)"
    using C9_empty_string_checked_as_zero [of bare_host range_0_150] by blast
  have r1: "validateRange bare_host range_from_1 (VStr []) = bounds_outcome bare_host range_from_1 (Fin 0)"
    using C9_empty_string_checked_as_zero [of bare_host range_from_1] by blast
  show ?thesis
    using z z1 by (simp only: r r1 b b1 simp_thms)
qed

lemma key_set_max: "k \<noteq> ''max'' \<Longrightarrow> key (config (set_max m rule)) k = key (config rule) k"
  by (simp add: set_max_def)

lemma below_min_set_max: "below_min H (set_max m rule) n = below_min H rule n"
  by (simp add: below_min_def key_set_max)

lemma below_min_message_set_max: "below_min_message H (set_max m rule) n = below_min_message H rule n"
  by (simp add: below_min_message_def key_set_max)

lemma Number_toString_ints:
  "Number_toString H (Fin 150) = ''150''" "Number_toString H (Fin 151) = ''151''"
  "Number_toString H (Fin (- 1)) = ''-1''"
  by code_simp+

text \<open>
  Claim C5. For every number \<open>n\<close> (not \<open>NaN\<close>) and every range rule with both bounds
  set, a value below the minimum is reported for the minimum only: the outcome is the
  below-minimum failure and does not depend on the maximum (replacing \<^verbatim>\<open>max\<close> by any
  \<open>m\<close> leaves it unchanged). With \<^verbatim>\<open>min=0, max=150, inclusive=true\<close>: 150 passes,
  151 fails, -1 fails, and \<^verbatim>\<open>"abc"\<close> fails with the non-numeric message.
\<close>

theorem C5_min_checked_before_max:
  "(n \<noteq> NaN \<and> key (config rule) ''min'' \<noteq> VUndefined \<and> key (config rule) ''max'' \<noteq> VUndefined
      \<and> below_min H rule n
     \<longrightarrow> validateRange H rule (VNum n) = fail (below_min_message H rule n)
        \<and> validateRange H (set_max m rule) (VNum n) = validateRange H rule (VNum n))
   \<and> passed (validateRange H range_0_150 (VNum (Fin 150)))
   \<and> \<not> passed (validateRange H range_0_150 (VNum (Fin 151)))
   \<and> \<not> passed (validateRange H range_0_150 (VNum (Fin (- 1))))
   \<and> validateRange H range_0_150 (VStr ''abc'') = fail (range_nan_message ''abc'')"
proof -
  have general: "validateRange H rule (VNum n) = fail (below_min_message H rule n)
        \<and> validateRange H (set_max m rule) (VNum n) = validateRange H rule (VNum n)"
    if "n \<noteq> NaN" "key (config rule) ''min'' \<noteq> VUndefined" "below_min H rule n"
    using that by (simp add: validateRange_number below_min_set_max below_min_message_set_max key_set_max)
  have e150: "passed (validateRange H range_0_150 (VNum (Fin 150)))"
    by (simp add: validateRange_number below_min_def above_max_def range_0_150_keys strict_eq_def
          js_lt_def js_gt_def ToNumber_def)
  have e151: "\<not> passed (validateRange H range_0_150 (VNum (Fin 151)))"
    by (simp add: validateRange_number below_min_def above_max_def range_0_150_keys strict_eq_def
          js_lt_def js_gt_def ToNumber_def fail_def)
  have em1: "\<not> passed (validateRange H range_0_150 (VNum (Fin (- 1))))"
    by (simp add: validateRange_number below_min_def above_max_def range_0_150_keys strict_eq_def
          js_lt_def js_gt_def ToNumber_def fail_def)
  have eabc: "validateRange H range_0_150 (VStr ''abc'') = fail (range_nan_message ''abc'')"
    by (simp add: validateRange_def ToNumber_abc isNaN_def ToString_def)
  show ?thesis using general e150 e151 em1 eabc by blast
qed

theorem C5_min_before_max_witness:
  "below_min bare_host range_0_150 (Fin (- 1)) \<and>
   validateRange bare_host range_0_150 (VNum (Fin (- 1))) = fail ''Value -1 is below minimum limit of 0'' \<and>
   validateRange bare_host (set_max (VNum (Fin (- 5))) range_0_150) (VNum (Fin (- 1)))
     = fail ''Value -1 is below minimum limit of 0''"
proof -
  have b: "below_min bare_host range_0_150 (Fin (- 1))"
    by (simp add: below_min_def range_0_150_keys strict_eq_def js_lt_def ToNumber_def)
  have m: "below_min_message bare_host range_0_150 (Fin (- 1)) = ''Value -1 is below minimum limit of 0''"
    by (simp add: below_min_message_def range_0_150_keys strict_eq_def Number_toString_ints ToString_def
          Number_toString_zero)
  show ?thesis
    using b m range_0_150_keys
      C5_min_checked_before_max [of "Fin (- 1)" range_0_150 bare_host "VNum (Fin (- 5))"]
    by simp
qed

lemma digit_char_not_quote: "n < 10 \<Longrightarrow> ''0123456789'' ! n \<noteq> CHR 0x27"
proof -
  assume "n < 10"
  then have "n \<in> {0, 1, 2, 3, 4, 5, 6, 7, 8, 9}" by auto
  then show ?thesis by (auto simp add: nth_Cons')
qed

lemma string_of_nat_head: "string_of_nat n \<noteq> [] \<and> hd (string_of_nat n) \<noteq> CHR 0x27"
proof (induction n rule: string_of_nat.induct)
  case (1 n)
  show ?case
  proof (cases "n < 10")
    case True
    then show ?thesis
      using digit_char_not_quote [of n] by (subst (1 2) string_of_nat.simps) simp
  next
    case False
    then show ?thesis
      using 1 by (subst (1 2) string_of_nat.simps) simp
  qed
qed

lemma Number_toString_safe_head:
  assumes "safe_int q"
  shows "Number_toString H (Fin q) \<noteq> [] \<and> hd (Number_toString H (Fin q)) \<noteq> CHR 0x27"
  using assms string_of_nat_head by (simp add: Number_toString_def)

text \<open>
  Claim C4, as stated, fails: the string \<^verbatim>\<open>"Infinity"\<close> does not coerce to a finite
  number, yet a range rule without bounds passes it. The source tests \<^verbatim>\<open>isNaN\<close>, not
  finiteness.
\<close>

theorem C4_infinity_is_not_rejected:
  "\<not> coerces_to_finite bare_host (VStr ''Infinity'') \<and>
   validateRange bare_host (example_rule ''range'' ''score'' []) (VStr ''Infinity'')
     = \<lparr>passed = True, message = Some []\<rparr>"
  by (simp add: coerces_to_finite_def ToNumber_Infinity validateRange_def isNaN_def example_rule_def
        config_of_def strict_eq_def)

text \<open>
  Claim C4, amended. For every value other than \<^verbatim>\<open>undefined\<close> and \<^verbatim>\<open>null\<close>: if it
  coerces to \<open>NaN\<close> the validator fails with the non-numeric message; if it coerces to
  any other number \<open>n\<close>, the infinities included, the outcome is the one of comparing
  \<open>n\<close> with the configured bounds (the below-minimum failure, else the above-maximum
  failure, else a pass), so it passes exactly when \<open>n\<close> lies within them; and a value
  that coerces to an infinity, or to an integer of magnitude up to \<open>2^53\<close>, never gets
  the non-numeric failure. With \<^verbatim>\<open>min=0, max=150\<close> the string \<^verbatim>\<open>"Infinity"\<close> fails as
  above the maximum.
\<close>

theorem C4_nan_is_rejected:
  assumes "v \<noteq> VUndefined" "v \<noteq> VNull"
  shows "(ToNumber H v = NaN \<longrightarrow> validateRange H rule v = fail (range_nan_message (ToString H v)))
       \<and> (ToNumber H v \<noteq> NaN \<longrightarrow>
            validateRange H rule v = bounds_outcome H rule (ToNumber H v)
            \<and> passed (validateRange H rule v) = within_bounds H rule (ToNumber H v))
       \<and> (ToNumber H v = PInf \<or> ToNumber H v = NInf \<or> (\<exists>q. ToNumber H v = Fin q \<and> safe_int q) \<longrightarrow>
            validateRange H rule v \<noteq> fail (range_nan_message (ToString H v)))"
proof -
  have a: "validateRange H rule v = fail (range_nan_message (ToString H v))" if "ToNumber H v = NaN"
    using that assms by (simp add: validateRange_def isNaN_def)
  have b: "validateRange H rule v = bounds_outcome H rule (ToNumber H v)" if "ToNumber H v \<noteq> NaN"
    using that assms validateRange_coerced [of v H rule] by (simp add: validateRange_bounds)
  have c: "validateRange H rule v \<noteq> fail (range_nan_message s)"
    if "ToNumber H v = PInf \<or> ToNumber H v = NInf \<or> (\<exists>q. ToNumber H v = Fin q \<and> safe_int q)" for s
  proof -
    have "validateRange H rule (VNum (ToNumber H v)) \<noteq> fail (range_nan_message s)"
      using that
      by (intro range_number_not_nan_message)
         (auto simp add: Number_toString_infinite Number_toString_safe_head)
    moreover have "validateRange H rule v = validateRange H rule (VNum (ToNumber H v))"
      using that assms by (intro validateRange_coerced) auto
    ultimately show ?thesis by simp
  qed
  show ?thesis using a b c by (simp add: passed_bounds_outcome)
qed

theorem C4_nan_is_rejected_witness:
  "ToNumber bare_host (VStr ''abc'') = NaN
   \<and> validateRange bare_host range_0_150 (VStr ''abc'')
       = fail ''Value 'abc' is not a valid number for range validation''
   \<and> ToNumber bare_host (VStr ''Infinity'') = PInf
   \<and> \<not> within_bounds bare_host range_0_150 PInf
   \<and> validateRange bare_host range_0_150 (VStr ''Infinity'')
       = fail ''Value Infinity is above maximum limit of 150''"
proof -
  have w: "\<not> within_bounds bare_host range_0_150 PInf"
    by (simp add: within_bounds_def above_max_def range_0_150_keys strict_eq_def js_gt_def js_lt_def
          ToNumber_def)
  have b: "bounds_outcome bare_host range_0_150 PInf = fail ''Value Infinity is above maximum limit of 150''"
    by (simp add: bounds_outcome_def below_min_def above_max_def above_max_message_def range_0_150_keys
          strict_eq_def js_gt_def js_lt_def ToNumber_def Number_toString_infinite ToString_def
          Number_toString_def safe_int_def is_int_def string_of_nat.simps)
  have n: "ToNumber bare_host (VStr ''abc'') = NaN"
    by (rule ToNumber_abc)
  have i: "ToNumber bare_host (VStr ''Infinity'') = PInf"
    by (rule ToNumber_Infinity)
  have r: "validateRange bare_host range_0_150 (VStr ''abc'')
             = fail (range_nan_message (ToString bare_host (VStr ''abc'')))"
    using C4_nan_is_rejected [of "VStr ''abc''" bare_host range_0_150] n by simp
  have m: "range_nan_message (ToString bare_host (VStr ''abc''))
             = ''Value 'abc' is not a valid number for range validation''"
    by (simp add: ToString_def range_nan_message_def quoted_def)
  have r1: "validateRange bare_host range_0_150 (VStr ''Infinity'') = bounds_outcome bare_host range_0_150 PInf"
    using C4_nan_is_rejected [of "VStr ''Infinity''" bare_host range_0_150] i by simp
  show ?thesis
    using w n i by (simp only: r m r1 b simp_thms)
qed

subsection \<open>The completeness validator\<close>

text \<open>
  Claim C6. For every host, rule and value, the completeness validator returns the
  failure of the first configured and violated check in the order required, notEmpty,
  minLength, and passes if there is none; checks that are not configured are skipped.
  For \<^verbatim>\<open>{required: true, notEmpty: true}\<close> and the value \<^verbatim>\<open>""\<close> the result is the
  failure "Field must not be empty".
\<close>

theorem C6_completeness_order:
  "validateCompleteness H rule v = first_failure (completeness_checks H rule v)
   \<and> validateCompleteness H required_not_empty (VStr []) = fail ''Field must not be empty''"
proof -
  have "validateCompleteness H rule v = first_failure (completeness_checks H rule v)"
    by (auto simp add: validateCompleteness_def completeness_checks_def strict_eq_def Let_def)
  moreover have "validateCompleteness H required_not_empty (VStr []) = fail ''Field must not be empty''"
    by (simp add: validateCompleteness_def required_not_empty_def example_rule_def config_of_def
          strict_eq_def ToString_def trim_def)
  ultimately show ?thesis by simp
qed

theorem C6_completeness_order_witness:
  "first_failure (completeness_checks bare_host required_not_empty (VStr []))
     = fail ''Field must not be empty''"
proof -
  have "validateCompleteness bare_host required_not_empty (VStr [])
          = first_failure (completeness_checks bare_host required_not_empty (VStr []))"
    using C6_completeness_order [of bare_host required_not_empty "VStr []"] by blast
  moreover have "validateCompleteness bare_host required_not_empty (VStr []) = fail ''Field must not be empty''"
    using C6_completeness_order [of bare_host required_not_empty "VStr []"] by blast
  ultimately show ?thesis by simp
qed

subsection \<open>The uniqueness validator\<close>

lemma getProp_own: "distinct (map fst ds) \<Longrightarrow> (k, x) \<in> set ds \<Longrightarrow> getProp ds k = x"
  by (simp add: getProp_def)

lemma map_getProp_keys:
  assumes "distinct (keys ds)"
  shows "map (getProp ds) (keys ds) = map snd ds"
proof -
  have "getProp ds (fst p) = snd p" if "p \<in> set ds" for p
    using that assms getProp_own [of ds "fst p" "snd p"] by (simp add: keys_def)
  then show ?thesis by (simp add: keys_def)
qed

lemma count_occurrences_values:
  assumes "distinct (keys ds)"
  shows "count_occurrences ds v = length (filter (\<lambda>x. strict_eq x v) (map snd ds))"
proof -
  have "count_occurrences ds v = length (filter (\<lambda>x. strict_eq x v) (map (getProp ds) (keys ds)))"
    by (simp add: count_occurrences_def filter_map comp_def)
  then show ?thesis using assms by (simp add: map_getProp_keys)
qed

lemma ToNumber_5: "ToNumber H (VStr ''5'') = Fin 5"
  by (simp add: ToNumber_def StringToNumber_def trim_def js_space_def startsWith_def is_digits_def
        is_digit_def int_of_digits_def digit_val_def)

text \<open>
  Claim C10. For every record (its keys distinct, as in any object), the uniqueness
  validator passes exactly when the value is \<^verbatim>\<open>undefined\<close> or \<^verbatim>\<open>null\<close> or at most
  one field holds a value strictly equal to it; in particular it passes for a value
  that occurs in only one field. Values that are equal only after coercion are not
  duplicates: \<^verbatim>\<open>"5"\<close> and \<^verbatim>\<open>5\<close> are loosely but not strictly equal, and the record
  holding both passes for \<^verbatim>\<open>"5"\<close>.
\<close>

theorem C10_uniqueness_is_strict:
  "(distinct (keys ds) \<longrightarrow>
      passed (validateUniqueness H rule v ds)
        = (v = VUndefined \<or> v = VNull \<or> length (filter (\<lambda>x. strict_eq x v) (map snd ds)) \<le> 1))
   \<and> loose_eq H (VStr ''5'') (VNum (Fin 5)) \<and> \<not> strict_eq (VStr ''5'') (VNum (Fin 5))
   \<and> passed (validateUniqueness H rule (VStr ''5'') five_and_five)"
proof -
  have a: "passed (validateUniqueness H rule v ds)
        = (v = VUndefined \<or> v = VNull \<or> length (filter (\<lambda>x. strict_eq x v) (map snd ds)) \<le> 1)"
    if "distinct (keys ds)"
    using that by (auto simp add: validateUniqueness_def count_occurrences_values pass_def fail_def)
  have b: "loose_eq H (VStr ''5'') (VNum (Fin 5))"
    using ToNumber_5 [of H] by (simp add: loose_eq_def ToNumber_def num_eq_def)
  have c: "\<not> strict_eq (VStr ''5'') (VNum (Fin 5))"
    by (simp add: strict_eq_def)
  have d: "passed (validateUniqueness H rule (VStr ''5'') five_and_five)"
    by (simp add: validateUniqueness_def count_occurrences_def five_and_five_def keys_def getProp_def
          strict_eq_def pass_def)
  show ?thesis using a b c d by blast
qed

theorem C10_uniqueness_witness:
  "distinct (keys five_and_five) \<and> length (filter (\<lambda>x. strict_eq x (VStr ''5'')) (map snd five_and_five)) = 1
   \<and> passed (validateUniqueness bare_host (example_rule ''uniqueness'' ''a'' []) (VStr ''5'') five_and_five)"
proof -
  have d: "distinct (keys five_and_five)" by (simp add: keys_def five_and_five_def)
  have l: "length (filter (\<lambda>x. strict_eq x (VStr ''5'')) (map snd five_and_five)) = 1"
    by (simp add: five_and_five_def strict_eq_def)
  show ?thesis
    using d l C10_uniqueness_is_strict [of five_and_five bare_host "example_rule ''uniqueness'' ''a'' []" "VStr ''5''"]
    by simp
qed

subsection \<open>The legacy expression evaluator\<close>











subsection \<open>The comparison validator\<close>

lemma iso_dates:
  "iso_date ''2023-01-01'' = Some 1672531200000"
  "iso_date ''2023-12-31'' = Some 1703980800000"
  by code_simp+

lemma date_order_keys:
  "key (config date_order) ''field1'' = VStr ''startDate''"
  "key (config date_order) ''field2'' = VStr ''endDate''"
  "key (config date_order) ''comparisonOperator'' = VStr ''lessThan''"
  by (simp_all add: date_order_def example_rule_def config_of_def)

text \<open>
  Claim C2, as stated, fails: with the operator \<^verbatim>\<open>equals\<close> and the value
  \<^verbatim>\<open>"abc"\<close> in both fields the validator passes, because it compares the two strings
  as they are; coerced to numbers both are \<open>NaN\<close>, which equals nothing. The source
  coerces only under the seven ordering and sum operators.
\<close>

theorem C2_equals_is_not_coerced:
  "passed (validateComparisonCrossField bare_host same_text VUndefined
      [(''password'', VStr ''abc''), (''confirmation'', VStr ''abc'')])
   \<and> \<not> claimed_comparison bare_host (VStr ''equals'') (VStr ''abc'') (VStr ''abc'') VUndefined"
  by code_simp

text \<open>
  Claim C2, amended. For a comparison rule with \<^verbatim>\<open>field1\<close>, \<^verbatim>\<open>field2\<close> and the
  operator configured: under \<^verbatim>\<open>lessThan\<close>, \<^verbatim>\<open>greaterThan\<close>, \<^verbatim>\<open>lessThanOrEqual\<close>,
  \<^verbatim>\<open>greaterThanOrEqual\<close>, \<^verbatim>\<open>sumEquals\<close>, \<^verbatim>\<open>sumLessThan\<close> and \<^verbatim>\<open>sumGreaterThan\<close>
  the two values are compared as dates if both parse as valid dates and as numbers
  otherwise; under every other operator they are compared as they are, by loose
  equality (negated for \<^verbatim>\<open>notEquals\<close>). With \<^verbatim>\<open>lessThan\<close>, the fields
  \<^verbatim>\<open>"2023-01-01"\<close> and \<^verbatim>\<open>"2023-12-31"\<close> pass and the reversed pair fails.
\<close>

theorem C2_comparison_coerces_ordering_only:
  "(ToBoolean (key (config rule) ''field1'') \<and> ToBoolean (key (config rule) ''field2'')
      \<and> ToBoolean (key (config rule) ''comparisonOperator'')
    \<longrightarrow> passed (validateComparisonCrossField H rule v ds) =
        (let op = key (config rule) ''comparisonOperator'';
             value1 = getField H ds (key (config rule) ''field1'');
             value2 = getField H ds (key (config rule) ''field2'')
         in if op \<in> VStr ` set coercing_operators
            then claimed_comparison H op value1 value2 (key (config rule) ''expectedSum'')
            else if op = VStr ''notEquals'' then \<not> loose_eq H value1 value2
            else loose_eq H value1 value2))
   \<and> passed (validateComparisonCrossField H date_order v
        [(''startDate'', VStr ''2023-01-01''), (''endDate'', VStr ''2023-12-31'')])
   \<and> \<not> passed (validateComparisonCrossField H date_order v
        [(''startDate'', VStr ''2023-12-31''), (''endDate'', VStr ''2023-01-01'')])"
proof -
  have general: "passed (validateComparisonCrossField H rule v ds) =
        (let op = key (config rule) ''comparisonOperator'';
             value1 = getField H ds (key (config rule) ''field1'');
             value2 = getField H ds (key (config rule) ''field2'')
         in if op \<in> VStr ` set coercing_operators
            then claimed_comparison H op value1 value2 (key (config rule) ''expectedSum'')
            else if op = VStr ''notEquals'' then \<not> loose_eq H value1 value2
            else loose_eq H value1 value2)"
    if "ToBoolean (key (config rule) ''field1'')" "ToBoolean (key (config rule) ''field2'')"
       "ToBoolean (key (config rule) ''comparisonOperator'')"
  proof (cases "key (config rule) ''comparisonOperator'' \<in> VStr ` set coercing_operators")
    case True
    then show ?thesis using that
      by (simp add: validateComparisonCrossField_def coerce_pair_def claimed_comparison_def
            coerced_operands_def Let_def pass_def fail_def split: prod.splits)
  next
    case False
    then show ?thesis using that
      by (auto simp add: validateComparisonCrossField_def coerce_pair_def compare_values_def
            coercing_operators_def Let_def pass_def fail_def)
  qed
  have d1: "passed (validateComparisonCrossField H date_order v
        [(''startDate'', VStr ''2023-01-01''), (''endDate'', VStr ''2023-12-31'')])"
    by (simp add: validateComparisonCrossField_def date_order_keys ToBoolean_def getField_def ToString_def
          getProp_def coerce_pair_def coercing_operators_def isValidDate_def Date_parse_def iso_dates
          new_Date_def compare_values_def js_lt_def ToNumber_def pass_def)
  have d2: "\<not> passed (validateComparisonCrossField H date_order v
        [(''startDate'', VStr ''2023-12-31''), (''endDate'', VStr ''2023-01-01'')])"
    by (simp add: validateComparisonCrossField_def date_order_keys ToBoolean_def getField_def ToString_def
          getProp_def coerce_pair_def coercing_operators_def isValidDate_def Date_parse_def iso_dates
          new_Date_def compare_values_def js_lt_def ToNumber_def fail_def)
  show ?thesis using general d1 d2 by blast
qed

theorem C2_comparison_witness:
  "ToBoolean (key (config date_order) ''field1'') \<and> ToBoolean (key (config date_order) ''field2'')
   \<and> ToBoolean (key (config date_order) ''comparisonOperator'')
   \<and> key (config date_order) ''comparisonOperator'' \<in> VStr ` set coercing_operators
   \<and> claimed_comparison bare_host (VStr ''lessThan'') (VStr ''2023-01-01'') (VStr ''2023-12-31'') VUndefined
   \<and> passed (validateComparisonCrossField bare_host date_order VUndefined
        [(''startDate'', VStr ''2023-01-01''), (''endDate'', VStr ''2023-12-31'')])"
proof -
  have t: "ToBoolean (key (config date_order) ''field1'')" "ToBoolean (key (config date_order) ''field2'')"
    "ToBoolean (key (config date_order) ''comparisonOperator'')"
    by (simp_all add: date_order_keys ToBoolean_def)
  have m: "key (config date_order) ''comparisonOperator'' \<in> VStr ` set coercing_operators"
    by (simp add: date_order_keys coercing_operators_def)
  have c: "claimed_comparison bare_host (VStr ''lessThan'') (VStr ''2023-01-01'') (VStr ''2023-12-31'') VUndefined"
    by (simp add: claimed_comparison_def coerced_operands_def isValidDate_def Date_parse_def iso_dates
          new_Date_def compare_values_def js_lt_def ToNumber_def)
  show ?thesis
    using t m c
      C2_comparison_coerces_ordering_only [of date_order bare_host VUndefined "[(''startDate'', VStr ''2023-01-01''), (''endDate'', VStr ''2023-12-31'')]"]
    by blast
qed

subsection \<open>The engine\<close>

lemma validateFormat_returns:
  assumes "ToBoolean (key (config rule) ''pattern'') \<longrightarrow> compiles H (key (config rule) ''pattern'')"
  shows "\<exists>out. validateFormat H rule v = Inr out"
  using assms
  by (auto simp add: validateFormat_def compiles_def Let_def split: sum.splits)

lemma evaluateTargetCondition_returns:
  assumes "ToBoolean (tc ''pattern'') \<longrightarrow> compiles H (tc ''pattern'')"
  shows "\<exists>out. evaluateTargetCondition H v tc = Inr out"
  using assms
  by (auto simp add: evaluateTargetCondition_def compiles_def Let_def split: sum.splits)

lemma validateConditionalCrossField_returns:
  assumes "case targetCondition (config rule) of None \<Rightarrow> True
           | Some tc \<Rightarrow> ToBoolean (tc ''pattern'') \<longrightarrow> compiles H (tc ''pattern'')"
  shows "\<exists>out. validateConditionalCrossField H rule v ds = Inr out"
proof (cases "targetCondition (config rule)")
  case None
  then show ?thesis by (simp add: validateConditionalCrossField_def Let_def)
next
  case (Some tc)
  then obtain out where
    "evaluateTargetCondition H (getField H ds (key (config rule) ''targetField'')) tc = Inr out"
    using assms evaluateTargetCondition_returns [of tc H] by auto
  then show ?thesis using Some by (simp add: validateConditionalCrossField_def Let_def)
qed

lemma executeRule_returns:
  assumes "regexps_compile H rule"
  shows "\<exists>out. executeRule H rule v ds = Inr out"
proof -
  have f: "\<exists>out. validateFormat H rule v = Inr out"
    using assms by (intro validateFormat_returns) (simp add: regexps_compile_def)
  have c: "\<exists>out. validateConditionalCrossField H rule v ds = Inr out"
    using assms by (intro validateConditionalCrossField_returns) (simp add: regexps_compile_def)
  show ?thesis using f c
    by (auto simp add: executeRule_def validateCrossField_def Let_def)
qed

lemma applyFields_returns:
  assumes "regexps_compile H rule"
  shows "\<exists>res. applyFields H rule ds fs acc = Inr (acc @ res)
           \<and> map r_field res = fs \<and> map r_value res = map (getProp ds) fs"
proof (induction fs arbitrary: acc)
  case Nil
  then show ?case by simp
next
  case (Cons f fs)
  obtain out where out: "executeRule H rule (getProp ds f) ds = Inr out"
    using executeRule_returns [OF assms] by blast
  define r where "r = \<lparr>r_ruleId = rule_id rule, r_ruleName = rule_name rule, r_field = f,
      r_value = getProp ds f, r_severity = or_error (severity rule),
      r_message = message out, r_passed = passed out\<rparr>"
  obtain res where res: "applyFields H rule ds fs (acc @ [r]) = Inr ((acc @ [r]) @ res)"
      "map r_field res = fs" "map r_value res = map (getProp ds) fs"
    using Cons.IH [of "acc @ [r]"] by blast
  have "applyFields H rule ds (f # fs) acc = Inr (acc @ (r # res))"
    using out res(1) by (simp add: getFieldValue_def r_def)
  moreover have "map r_field (r # res) = f # fs" "map r_value (r # res) = map (getProp ds) (f # fs)"
    using res(2,3) by (simp_all add: r_def)
  ultimately show ?case by (intro exI [of _ "r # res"]) simp
qed

text \<open>
  A rule with the target \<^verbatim>\<open>"*"\<close> whose regular expressions compile yields exactly
  one result per field of the record, in the order of the record's fields.
\<close>

lemma wildcard_one_result_per_field:
  assumes "target_field rule = ''*''" "enabled rule \<noteq> VBool False" "regexps_compile H rule"
  shows "\<exists>res. validate H (loadRules [rule] eng) ds = Inr res
           \<and> map r_field res = keys ds \<and> length res = length ds"
proof -
  obtain res where res: "applyFields H rule ds (keys ds) [] = Inr ([] @ res)" "map r_field res = keys ds"
    using applyFields_returns [OF assms(3), of ds "keys ds" "[]"] by blast
  have "length res = length ds"
    using res(2) by (metis length_map keys_def)
  moreover have "validate H (loadRules [rule] eng) ds = Inr res"
    using assms(1,2) res(1)
    by (simp add: validate_def loadRules_def applyRule_def findMatchingFields_def strict_eq_def)
  ultimately show ?thesis using res(2) by blast
qed

lemma wildcard_example:
  "target_field every_field_in_range = ''*'' \<and> enabled every_field_in_range \<noteq> VBool False
   \<and> regexps_compile bare_host every_field_in_range
   \<and> (\<exists>res. validate bare_host (loadRules [every_field_in_range] new_engine)
                [(''age'', VNum (Fin 151)), (''height'', VStr [])] = Inr res
              \<and> map r_field res = [''age'', ''height''])"
proof -
  have a: "target_field every_field_in_range = ''*''" "enabled every_field_in_range \<noteq> VBool False"
    by (simp_all add: every_field_in_range_def example_rule_def)
  have b: "regexps_compile bare_host every_field_in_range"
    by (simp add: regexps_compile_def every_field_in_range_def example_rule_def config_of_def ToBoolean_def)
  show ?thesis
    using a b wildcard_one_result_per_field [OF a b, of new_engine "[(''age'', VNum (Fin 151)), (''height'', VStr [])]"]
    by (auto simp add: keys_def)
qed

text \<open>
  More generally, \<open>validate\<close> returns whenever, for every enabled rule, the target
  resolves and the configured regular expressions compile: the unguarded
  \<^verbatim>\<open>new RegExp\<close> calls and the shadowed \<^verbatim>\<open>hasOwnProperty\<close> are the only ways it throws.
\<close>

lemma findMatchingFields_returns:
  assumes "target_resolves H ds p"
  shows "\<exists>fs. findMatchingFields H p ds = Inr fs"
  using assms
  by (auto simp add: target_resolves_def findMatchingFields_def getProp_def object_prototype_keys_def
        split: sum.splits)

lemma applyRule_returns:
  assumes "regexps_compile H rule" "target_resolves H ds (target_field rule)"
  shows "\<exists>res. applyRule H rule ds acc = Inr res"
proof -
  obtain fs where "findMatchingFields H (target_field rule) ds = Inr fs"
    using findMatchingFields_returns [OF assms(2)] by blast
  then show ?thesis
    using applyFields_returns [OF assms(1), of ds fs acc] by (auto simp add: applyRule_def)
qed

lemma applyRules_returns:
  assumes "\<forall>rule \<in> set rs. enabled rule \<noteq> VBool False \<longrightarrow>
             regexps_compile H rule \<and> target_resolves H ds (target_field rule)"
  shows "\<exists>res. applyRules H rs ds acc = Inr res"
  using assms
proof (induction rs arbitrary: acc)
  case Nil
  then show ?case by simp
next
  case (Cons rule rs)
  show ?case
  proof (cases "enabled rule = VBool False")
    case True
    then show ?thesis using Cons by (simp add: strict_eq_def)
  next
    case False
    then obtain res where "applyRule H rule ds acc = Inr res"
      using Cons.prems applyRule_returns [of H rule ds acc] by auto
    then show ?thesis using False Cons by (simp add: strict_eq_def)
  qed
qed

lemma validate_returns:
  assumes "\<forall>rule \<in> set rs. enabled rule \<noteq> VBool False \<longrightarrow>
             regexps_compile H rule \<and> target_resolves H ds (target_field rule)"
  shows "\<exists>res. validate H (loadRules rs eng) ds = Inr res"
  using applyRules_returns [OF assms] by (simp add: validate_def loadRules_def)

text \<open>
  Claim C3 does not hold for every rule: a format rule with the target \<^verbatim>\<open>"*"\<close> and
  the pattern \<^verbatim>\<open>"[0-9"\<close> makes \<open>validate\<close> throw on the record \<^verbatim>\<open>{zip: "12345"}\<close>
  instead of returning one result for the field. Where nothing throws, the claim holds
  (\<open>wildcard_one_result_per_field\<close>).
\<close>

theorem C3_wildcard_bad_pattern_throws:
  "validate H (loadRules [bad_pattern_rule] eng) [(''zip'', VStr ''12345'')] = Inl SyntaxError"
  by (simp add: validate_def loadRules_def bad_pattern_rule_def example_rule_def config_of_def strict_eq_def
        applyRule_def findMatchingFields_def keys_def getProp_def
        getFieldValue_def executeRule_def validateFormat_def ToString_def ToBoolean_def RegExp_new_def)

text \<open>
  Claim C1 does not hold: \<open>validate\<close> throws on rules and records of the documented
  shape. A format rule whose pattern is \<^verbatim>\<open>"[0-9"\<close> and a rule whose target is the
  glob \<^verbatim>\<open>phone(\<close> followed by a star end in the \<^verbatim>\<open>SyntaxError\<close> of
  \<^verbatim>\<open>new RegExp\<close>; a record with an own field \<^verbatim>\<open>hasOwnProperty\<close> ends the
  exact-match lookup in a \<^verbatim>\<open>TypeError\<close>.
\<close>

theorem C1_validate_can_throw:
  "validate H (loadRules [bad_zip_rule] eng) [(''zip'', VStr ''12345'')] = Inl SyntaxError
   \<and> validate H (loadRules [phone_glob_rule] eng) [(''phone(home)'', VStr ''555-123-4567'')] = Inl SyntaxError
   \<and> validate H (loadRules [name_required_rule] eng)
         [(''name'', VStr ''Ann''), (''hasOwnProperty'', VStr ''yes'')] = Inl TypeError"
proof -
  have a: "validate H (loadRules [bad_zip_rule] eng) [(''zip'', VStr ''12345'')] = Inl SyntaxError"
    by (simp add: validate_def loadRules_def bad_zip_rule_def example_rule_def config_of_def strict_eq_def
          applyRule_def findMatchingFields_def startsWith_def getProp_def object_prototype_keys_def keys_def
          getFieldValue_def executeRule_def validateFormat_def ToString_def ToBoolean_def RegExp_new_def)
  have b: "validate H (loadRules [phone_glob_rule] eng) [(''phone(home)'', VStr ''555-123-4567'')] = Inl SyntaxError"
    by (simp add: validate_def loadRules_def phone_glob_rule_def example_rule_def config_of_def strict_eq_def
          applyRule_def findMatchingFields_def startsWith_def replace_stars_def RegExp_new_def)
  have c: "validate H (loadRules [name_required_rule] eng)
         [(''name'', VStr ''Ann''), (''hasOwnProperty'', VStr ''yes'')] = Inl TypeError"
    by (simp add: validate_def loadRules_def name_required_rule_def example_rule_def config_of_def strict_eq_def
          applyRule_def findMatchingFields_def startsWith_def getProp_def)
  show ?thesis using a b c by simp
qed

text \<open>
  Outside the legacy cross-field mode every failed outcome carries a message that is
  not empty, and so does every failed result that \<open>validate\<close> returns.
\<close>

lemma has_message_fail: "m \<noteq> [] \<Longrightarrow> has_message (fail m)"
  by (simp add: has_message_def fail_def)

lemma passed_pass: "passed pass" and passed_fail: "\<not> passed (fail m)"
  by (simp_all add: pass_def fail_def)

lemma checkDataType_message: "\<not> passed (checkDataType H s t) \<Longrightarrow> has_message (checkDataType H s t)"
  by (auto simp add: checkDataType_def has_message_def pass_def fail_def split: if_splits)

lemma validateFormat_message:
  "validateFormat H rule v = Inr out \<Longrightarrow> \<not> passed out \<Longrightarrow> has_message out"
  using checkDataType_message
  by (auto simp add: validateFormat_def Let_def passed_pass has_message_fail split: if_splits sum.splits)

lemma validateRange_message: "\<not> passed (validateRange H rule v) \<Longrightarrow> has_message (validateRange H rule v)"
  by (auto simp add: validateRange_def Let_def pass_def fail_def has_message_def range_nan_message_def
        split: if_splits)

lemma validateCompleteness_message:
  "\<not> passed (validateCompleteness H rule v) \<Longrightarrow> has_message (validateCompleteness H rule v)"
  by (auto simp add: validateCompleteness_def Let_def passed_pass has_message_fail split: if_splits)

lemma validateUniqueness_message:
  "\<not> passed (validateUniqueness H rule v ds) \<Longrightarrow> has_message (validateUniqueness H rule v ds)"
  by (auto simp add: validateUniqueness_def passed_pass has_message_fail split: if_splits)

lemma validateConditionalCrossField_message:
  "validateConditionalCrossField H rule v ds = Inr out \<Longrightarrow> \<not> passed out \<Longrightarrow> has_message out"
  by (auto simp add: validateConditionalCrossField_def Let_def passed_pass has_message_fail
        split: if_splits sum.splits option.splits)

lemma validateComparisonCrossField_message:
  "\<not> passed (validateComparisonCrossField H rule v ds) \<Longrightarrow> has_message (validateComparisonCrossField H rule v ds)"
  by (auto simp add: validateComparisonCrossField_def Let_def passed_pass has_message_fail
        split: if_splits prod.splits)

lemma validateDependencyCrossField_message:
  "\<not> passed (validateDependencyCrossField H rule v ds) \<Longrightarrow> has_message (validateDependencyCrossField H rule v ds)"
  by (auto simp add: validateDependencyCrossField_def Let_def passed_pass has_message_fail split: if_splits)

lemma validateAgeVerificationRule_message:
  "\<not> passed (validateAgeVerificationRule H ds) \<Longrightarrow> has_message (validateAgeVerificationRule H ds)"
  unfolding validateAgeVerificationRule_def Let_def
  by (auto simp add: passed_pass has_message_fail split: if_splits)

lemma validateEmailOrPhoneRequiredRule_message:
  "\<not> passed (validateEmailOrPhoneRequiredRule ds) \<Longrightarrow> has_message (validateEmailOrPhoneRequiredRule ds)"
  unfolding validateEmailOrPhoneRequiredRule_def Let_def
  by (auto simp add: passed_pass has_message_fail split: if_splits)

lemma validateMinorsConsentRule_message:
  "\<not> passed (validateMinorsConsentRule H ds) \<Longrightarrow> has_message (validateMinorsConsentRule H ds)"
  unfolding validateMinorsConsentRule_def Let_def
  by (auto simp add: passed_pass has_message_fail split: if_splits)

lemma validateSalaryVerificationRule_message:
  "\<not> passed (validateSalaryVerificationRule H ds) \<Longrightarrow> has_message (validateSalaryVerificationRule H ds)"
  unfolding validateSalaryVerificationRule_def Let_def
  by (auto simp add: passed_pass has_message_fail split: if_splits)

lemma validateBusinessRuleCrossField_message:
  "\<not> passed (validateBusinessRuleCrossField H rule v ds) \<Longrightarrow> has_message (validateBusinessRuleCrossField H rule v ds)"
  unfolding validateBusinessRuleCrossField_def Let_def
  using validateAgeVerificationRule_message [of H ds] validateEmailOrPhoneRequiredRule_message [of ds]
    validateMinorsConsentRule_message [of H ds] validateSalaryVerificationRule_message [of H ds]
  by (simp add: passed_pass split: if_splits)

lemma validateCrossField_message:
  assumes "key (config rule) ''type'' \<in> VStr ` set [''conditional'', ''comparison'', ''dependency'', ''businessRule'']"
    "validateCrossField H rule v ds = Inr out" "\<not> passed out"
  shows "has_message out"
proof -
  let ?t = "key (config rule) ''type''"
  consider "?t = VStr ''conditional''" | "?t = VStr ''comparison''" | "?t = VStr ''dependency''"
    | "?t = VStr ''businessRule''"
    using assms(1) by auto
  then show ?thesis
  proof cases
    case 1
    then show ?thesis
      using assms(2,3) validateConditionalCrossField_message [of H rule v ds out]
      by (simp add: validateCrossField_def)
  next
    case 2
    then show ?thesis
      using assms(2,3) validateComparisonCrossField_message [of H rule v ds]
      by (auto simp add: validateCrossField_def)
  next
    case 3
    then show ?thesis
      using assms(2,3) validateDependencyCrossField_message [of H rule v ds]
      by (auto simp add: validateCrossField_def)
  next
    case 4
    then show ?thesis
      using assms(2,3) validateBusinessRuleCrossField_message [of H rule v ds]
      by (auto simp add: validateCrossField_def)
  qed
qed

lemma executeRule_message:
  assumes "\<not> legacy_mode rule" "executeRule H rule v ds = Inr out" "\<not> passed out"
  shows "has_message out"
proof -
  let ?t = "ruleType rule"
  consider (format) "?t = VStr ''format''" | (range) "?t = VStr ''range''"
    | (completeness) "?t = VStr ''completeness''" | (uniqueness) "?t = VStr ''uniqueness''"
    | (crossField) "?t = VStr ''crossField''" | (custom) "?t = VStr ''custom''"
    | (unknown) "?t \<notin> VStr ` set [''format'', ''range'', ''completeness'', ''uniqueness'', ''crossField'', ''custom'']"
    by auto
  then show ?thesis
  proof cases
    case format
    then show ?thesis
      using assms(2,3) validateFormat_message [of H rule v out] by (simp add: executeRule_def)
  next
    case range
    then show ?thesis
      using assms(2,3) validateRange_message [of H rule v] by (auto simp add: executeRule_def)
  next
    case completeness
    then show ?thesis
      using assms(2,3) validateCompleteness_message [of H rule v] by (auto simp add: executeRule_def)
  next
    case uniqueness
    then show ?thesis
      using assms(2,3) validateUniqueness_message [of H rule v ds] by (auto simp add: executeRule_def)
  next
    case crossField
    then have "key (config rule) ''type''
        \<in> VStr ` set [''conditional'', ''comparison'', ''dependency'', ''businessRule'']"
      using assms(1) by (simp add: legacy_mode_def)
    moreover have "validateCrossField H rule v ds = Inr out"
      using crossField assms(2) by (simp add: executeRule_def)
    ultimately show ?thesis using assms(3) by (rule validateCrossField_message)
  next
    case custom
    then show ?thesis
      using assms(2,3) by (auto simp add: executeRule_def validateCustom_def passed_pass)
  next
    case unknown
    then have "out = fail (''Unknown rule type: '' @ ToString H (ruleType rule))"
      using assms(2) by (auto simp add: executeRule_def)
    then show ?thesis by (simp add: has_message_fail)
  qed
qed

lemma applyFields_messages:
  assumes "\<not> legacy_mode rule"
  shows "applyFields H rule ds fs acc = Inr res \<Longrightarrow> list_all result_has_message acc
         \<Longrightarrow> list_all result_has_message res"
proof (induction fs arbitrary: acc)
  case Nil
  then show ?case by simp
next
  case (Cons f fs)
  from Cons.prems(1) obtain out where out: "executeRule H rule (getProp ds f) ds = Inr out"
    by (cases "executeRule H rule (getProp ds f) ds") (auto simp add: getFieldValue_def Let_def)
  define r where "r = \<lparr>r_ruleId = rule_id rule, r_ruleName = rule_name rule, r_field = f,
      r_value = getProp ds f, r_severity = or_error (severity rule),
      r_message = message out, r_passed = passed out\<rparr>"
  have "result_has_message r"
    using executeRule_message [OF assms out]
    by (auto simp add: result_has_message_def r_def has_message_def)
  moreover have "applyFields H rule ds fs (acc @ [r]) = Inr res"
    using Cons.prems(1) out by (simp add: getFieldValue_def r_def)
  ultimately show ?case using Cons.IH [of "acc @ [r]"] Cons.prems(2) by simp
qed

lemma applyRules_messages:
  assumes "\<forall>rule \<in> set rs. \<not> legacy_mode rule"
  shows "applyRules H rs ds acc = Inr res \<Longrightarrow> list_all result_has_message acc
         \<Longrightarrow> list_all result_has_message res"
  using assms
proof (induction rs arbitrary: acc)
  case Nil
  then show ?case by simp
next
  case (Cons rule rs)
  show ?case
  proof (cases "enabled rule = VBool False")
    case True
    then show ?thesis using Cons by (simp add: strict_eq_def)
  next
    case False
    then obtain mid where mid: "applyRule H rule ds acc = Inr mid" "applyRules H rs ds mid = Inr res"
      using Cons.prems(1) by (auto simp add: strict_eq_def split: sum.splits)
    from mid(1) obtain fs where "applyFields H rule ds fs acc = Inr mid"
      by (auto simp add: applyRule_def split: sum.splits)
    then have "list_all result_has_message mid"
      using applyFields_messages [of rule H ds fs acc mid] Cons.prems(2,3) by simp
    then show ?thesis using Cons.IH [OF mid(2)] Cons.prems(3) by simp
  qed
qed

lemma validate_messages:
  assumes "\<forall>rule \<in> set rs. \<not> legacy_mode rule" "validate H (loadRules rs eng) ds = Inr res"
    "r \<in> set res" "\<not> r_passed r"
  shows "\<exists>m. r_message r = Some m \<and> m \<noteq> []"
proof -
  have "list_all result_has_message res"
    using applyRules_messages [OF assms(1), of H ds "[]" res] assms(2)
    by (simp add: validate_def loadRules_def)
  then have "result_has_message r" using assms(3) by (simp add: list_all_iff)
  then show ?thesis using assms(4) by (auto simp add: result_has_message_def split: option.splits)
qed

text \<open>
  Claim C8 does not hold for the legacy cross-field mode: the rule
  \<^verbatim>\<open>{dependentField: "status", condition: "== active"}\<close> on the record
  \<^verbatim>\<open>{status: "closed"}\<close> yields one result with \<^verbatim>\<open>passed = false\<close> and no message.
\<close>

theorem C8_legacy_failure_without_message:
  "validate H (loadRules [status_is_active] eng) [(''status'', VStr ''closed'')]
     = Inr [\<lparr>r_ruleId = VStr ''rule-1'', r_ruleName = VStr ''Example rule'', r_field = ''status'',
             r_value = VStr ''closed'', r_severity = VStr ''error'', r_message = None, r_passed = False\<rparr>]"
  by (simp add: validate_def loadRules_def status_is_active_def example_rule_def config_of_def strict_eq_def
        applyRule_def findMatchingFields_def startsWith_def getProp_def object_prototype_keys_def keys_def
        getFieldValue_def executeRule_def validateCrossField_def validateLegacyCrossField_def ToBoolean_def
        getField_def ToString_def evaluateExpression_def right_of_def split_def trim_def js_space_def
        resolveValue_def endsWith_def loose_eq_def or_error_def)

end
